theory Spec2Isabelle
  imports Complex_Main "HOL-Library.Sublist"
begin

section \<open>Python dictionaries\<close>

text \<open>
  A Python \<^verbatim>\<open>dict\<close> keeps its keys in insertion order and holds every key once.
  It is modelled as an association list: \<open>dict_set\<close> overwrites the value of a key
  that is present (the key keeps its place) and appends a new key at the end;
  \<open>dict_get\<close> is \<^verbatim>\<open>d.get(k)\<close>, \<open>dict_get_or\<close> is \<^verbatim>\<open>d.get(k, default)\<close>,
  \<open>dict_keys\<close> is \<^verbatim>\<open>d.keys()\<close>.
\<close>

type_synonym ('k, 'v) dict = "('k \<times> 'v) list"

fun dict_get :: "('k, 'v) dict \<Rightarrow> 'k \<Rightarrow> 'v option" where
  "dict_get [] k = None"
| "dict_get ((k', v) # d) k = (if k' = k then Some v else dict_get d k)"

definition dict_get_or :: "('k, 'v) dict \<Rightarrow> 'k \<Rightarrow> 'v \<Rightarrow> 'v" where
  "dict_get_or d k dflt = (case dict_get d k of None \<Rightarrow> dflt | Some v \<Rightarrow> v)"

fun dict_set :: "('k, 'v) dict \<Rightarrow> 'k \<Rightarrow> 'v \<Rightarrow> ('k, 'v) dict" where
  "dict_set [] k v = [(k, v)]"
| "dict_set ((k', v') # d) k v =
     (if k' = k then (k, v) # d else (k', v') # dict_set d k v)"

definition dict_keys :: "('k, 'v) dict \<Rightarrow> 'k list" where
  "dict_keys d = map fst d"

definition dict_has :: "('k, 'v) dict \<Rightarrow> 'k \<Rightarrow> bool" where
  "dict_has d k = (dict_get d k \<noteq> None)"

section \<open>Hybrid search: reciprocal rank fusion (lib/search.py)\<close>

text \<open>
  The dataclass \<^verbatim>\<open>SearchResult\<close>. Python floats are modelled as reals: the rounding of
  floating-point division and addition is not part of the model.
\<close>

record SearchResult =
  sr_event_id :: string
  sr_session_id :: string
  sr_event_type :: string
  sr_content :: string
  sr_score :: real
  sr_timestamp :: string
  sr_source :: string
  sr_cosine_similarity :: real

text \<open>
  The three dictionaries of \<^verbatim>\<open>reciprocal_rank_fusion\<close>: \<^verbatim>\<open>scores\<close>, \<^verbatim>\<open>result_map\<close> and
  \<^verbatim>\<open>cosine_scores\<close>.
\<close>

record rrf_state =
  scores :: "(string, real) dict"
  result_map :: "(string, SearchResult) dict"
  cosine_scores :: "(string, real) dict"

text \<open>
  \<^verbatim>\<open>for rank, result in enumerate(keyword_results)\<close>: the second argument is the rank
  of the head of the list.
\<close>

fun keyword_loop :: "nat \<Rightarrow> nat \<Rightarrow> SearchResult list \<Rightarrow> rrf_state \<Rightarrow> rrf_state" where
  "keyword_loop k rank [] st = st"
| "keyword_loop k rank (result # rest) st =
     (let rrf_score = 1 / real (k + rank + 1) in
      keyword_loop k (Suc rank) rest
        (st\<lparr>scores := dict_set (scores st) (sr_event_id result)
                         (dict_get_or (scores st) (sr_event_id result) 0 + rrf_score),
            result_map := dict_set (result_map st) (sr_event_id result) result\<rparr>))"

fun semantic_loop :: "nat \<Rightarrow> nat \<Rightarrow> SearchResult list \<Rightarrow> rrf_state \<Rightarrow> rrf_state" where
  "semantic_loop k rank [] st = st"
| "semantic_loop k rank (result # rest) st =
     (let rrf_score = 1 / real (k + rank + 1) in
      semantic_loop k (Suc rank) rest
        (st\<lparr>scores := dict_set (scores st) (sr_event_id result)
                         (dict_get_or (scores st) (sr_event_id result) 0 + rrf_score),
            cosine_scores := dict_set (cosine_scores st) (sr_event_id result)
                               (sr_cosine_similarity result),
            result_map := (if \<not> dict_has (result_map st) (sr_event_id result)
                           then dict_set (result_map st) (sr_event_id result) result
                           else result_map st)\<rparr>))"

text \<open>
  The result built for one id of \<^verbatim>\<open>sorted_ids\<close>. \<^verbatim>\<open>result_map[event_id]\<close> raises
  \<^verbatim>\<open>KeyError\<close> on a missing key; every key of \<^verbatim>\<open>scores\<close> is a key of \<^verbatim>\<open>result_map\<close>, so
  the lookup is modelled with an option and a missing key yields no result.
\<close>

definition build_result :: "rrf_state \<Rightarrow> string \<Rightarrow> SearchResult option" where
  "build_result st eid =
     (case dict_get (result_map st) eid of
        None \<Rightarrow> None
      | Some result \<Rightarrow>
          Some \<lparr>sr_event_id = sr_event_id result,
                sr_session_id = sr_session_id result,
                sr_event_type = sr_event_type result,
                sr_content = sr_content result,
                sr_score = dict_get_or (scores st) eid 0,
                sr_timestamp = sr_timestamp result,
                sr_source = ''hybrid'',
                sr_cosine_similarity = dict_get_or (cosine_scores st) eid 0\<rparr>)"

text \<open>
  \<^verbatim>\<open>sorted(scores.keys(), key=lambda x: -scores[x])\<close> is a stable sort, as is
  \<open>sort_key\<close>.
\<close>

definition reciprocal_rank_fusion ::
  "SearchResult list \<Rightarrow> SearchResult list \<Rightarrow> nat \<Rightarrow> SearchResult list" where
  "reciprocal_rank_fusion keyword_results semantic_results k =
     (let st0 = \<lparr>scores = [], result_map = [], cosine_scores = []\<rparr>;
          st1 = keyword_loop k 0 keyword_results st0;
          st2 = semantic_loop k 0 semantic_results st1;
          sorted_ids = sort_key (\<lambda>x. - dict_get_or (scores st2) x 0) (dict_keys (scores st2))
      in List.map_filter (build_result st2) sorted_ids)"

text \<open>The score carried by the result for event \<open>e\<close>, if the result list has one.\<close>

definition score_of :: "SearchResult list \<Rightarrow> string \<Rightarrow> real option" where
  "score_of results e = map_option sr_score (find (\<lambda>r. sr_event_id r = e) results)"

text \<open>
  The sum of the contributions \<open>1 / (k + rank + 1)\<close> of the positions of a result list
  that hold event \<open>e\<close>; the head of the list has rank \<open>rank\<close>.
\<close>

fun rank_contribution :: "nat \<Rightarrow> nat \<Rightarrow> SearchResult list \<Rightarrow> string \<Rightarrow> real" where
  "rank_contribution k rank [] e = 0"
| "rank_contribution k rank (r # rs) e =
     (if sr_event_id r = e then 1 / real (k + rank + 1) else 0)
       + rank_contribution k (Suc rank) rs e"

text \<open>Every key of \<^verbatim>\<open>scores\<close> is in \<^verbatim>\<open>result_map\<close>, filed under its own event id.\<close>

definition map_ok :: "rrf_state \<Rightarrow> bool" where
  "map_ok st \<longleftrightarrow>
     (\<forall>e\<in>set (dict_keys (scores st)). dict_get (result_map st) e \<noteq> None)
     \<and> (\<forall>e r. dict_get (result_map st) e = Some r \<longrightarrow> sr_event_id r = e)"

text \<open>A search result with the given event id, for concrete inputs.\<close>

definition result_for :: "string \<Rightarrow> SearchResult" where
  "result_for e = \<lparr>sr_event_id = e, sr_session_id = ''s1'', sr_event_type = ''UserPromptSubmit'',
     sr_content = ''text'', sr_score = 0, sr_timestamp = ''2025-01-01T00:00:00'',
     sr_source = ''keyword'', sr_cosine_similarity = 0\<rparr>"

section \<open>Embedding search (lib/embeddings.py)\<close>













section \<open>JSON values, serialisation and parsing\<close>

text \<open>
  The values \<^verbatim>\<open>json.loads\<close> returns and \<^verbatim>\<open>json.dumps\<close> accepts. A Python \<^verbatim>\<open>dict\<close> is an
  insertion-ordered association list; a \<^verbatim>\<open>str\<close> is a list of 8-bit characters (text
  outside Latin-1 is not modelled), a number is an integer (floats are not modelled).
\<close>

datatype json =
    JNull
  | JBool bool
  | JInt int
  | JStr string
  | JArr "json list"
  | JObj "(string \<times> json) list"

text \<open>Errors raised by the modelled code, as values.\<close>

datatype error =
    JSONDecodeError
  | TypeError
  | KeyError string
  | AttributeError
  | OSError
  | SQLiteError
  | DecodeError

subsection \<open>Python accessors\<close>

text \<open>
  \<^verbatim>\<open>x.get(key)\<close> on a value that is expected to be a dict: a value of another type has no
  \<^verbatim>\<open>get\<close> and raises \<^verbatim>\<open>AttributeError\<close>.
\<close>

fun py_get :: "json \<Rightarrow> string \<Rightarrow> error + json option" where
  "py_get (JObj d) k = Inr (dict_get d k)"
| "py_get _ k = Inl AttributeError"

fun is_dict :: "json \<Rightarrow> bool" where
  "is_dict (JObj d) = True"
| "is_dict _ = False"

text \<open>Truthiness of a value (\<^verbatim>\<open>if x:\<close>).\<close>

fun truthy :: "json \<Rightarrow> bool" where
  "truthy JNull = False"
| "truthy (JBool b) = b"
| "truthy (JInt i) = (i \<noteq> 0)"
| "truthy (JStr s) = (s \<noteq> [])"
| "truthy (JArr xs) = (xs \<noteq> [])"
| "truthy (JObj d) = (d \<noteq> [])"

subsection \<open>Text\<close>

definition dq :: char where
  "dq = CHR 0x22"

definition backslash :: char where
  "backslash = CHR 0x5C"

definition newline :: char where
  "newline = CHR 0x0A"

text \<open>The characters \<^verbatim>\<open>str.strip()\<close> removes, among the 8-bit characters.\<close>

definition is_space :: "char \<Rightarrow> bool" where
  "is_space c \<longleftrightarrow> c \<in> set [CHR 0x20, CHR 0x09, CHR 0x0A, CHR 0x0D, CHR 0x0B, CHR 0x0C,
                              CHR 0x1C, CHR 0x1D, CHR 0x1E, CHR 0x1F, CHR 0x85, CHR 0xA0]"

definition strip :: "string \<Rightarrow> string" where
  "strip s = rev (dropWhile is_space (rev (dropWhile is_space s)))"

text \<open>\<^verbatim>\<open>s.split("\n")\<close>: the pieces between newlines; one more piece than newlines.\<close>

fun split_lines :: "string \<Rightarrow> string list" where
  "split_lines [] = [[]]"
| "split_lines (c # cs) =
     (if c = newline then [] # split_lines cs
      else (case split_lines cs of
              l # ls \<Rightarrow> (c # l) # ls
            | [] \<Rightarrow> [[c]]))"

text \<open>
  \<^verbatim>\<open>for line in f\<close>: the lines of a text file, each with its terminating newline; a
  last line without a newline is yielded as it is, and an empty file has no line.
  Lines end at \<^verbatim>\<open>\n\<close> only (the carriage-return translation of text mode is not
  modelled).
\<close>

fun file_lines :: "string \<Rightarrow> string list" where
  "file_lines [] = []"
| "file_lines (c # cs) =
     (if c = newline then [c] # file_lines cs
      else (case file_lines cs of
              l # ls \<Rightarrow> (c # l) # ls
            | [] \<Rightarrow> [[c]]))"

text \<open>
  \<^verbatim>\<open>s.count(sub)\<close> for a non-empty \<^verbatim>\<open>sub\<close>: the number of non-overlapping occurrences,
  found from left to right. The first argument of \<open>count_from\<close> is the number of
  characters still covered by the occurrence found last.
\<close>

fun count_from :: "nat \<Rightarrow> string \<Rightarrow> string \<Rightarrow> nat" where
  "count_from skip sub [] = 0"
| "count_from skip sub (c # cs) =
     (if 0 < skip then count_from (skip - 1) sub cs
      else if prefix sub (c # cs) then Suc (count_from (length sub - 1) sub cs)
      else count_from 0 sub cs)"

definition str_count :: "string \<Rightarrow> string \<Rightarrow> nat" where
  "str_count s sub = count_from 0 sub s"

subsection \<open>Numbers as text\<close>

definition digit_char :: "nat \<Rightarrow> char" where
  "digit_char n = char_of (48 + n)"

function show_nat :: "nat \<Rightarrow> string" where
  "show_nat n = (if n < 10 then [digit_char n] else show_nat (n div 10) @ [digit_char (n mod 10)])"
  by pat_completeness auto
termination
  by (relation "measure id") auto

declare show_nat.simps [simp del]

definition show_int :: "int \<Rightarrow> string" where
  "show_int i = (if i < 0 then CHR ''-'' # show_nat (nat (- i)) else show_nat (nat i))"

definition hex_char :: "nat \<Rightarrow> char" where
  "hex_char n = (if n < 10 then char_of (48 + n) else char_of (87 + n))"

subsection \<open>\<^verbatim>\<open>json.dumps(value, ensure_ascii=False)\<close>\<close>

text \<open>
  The escapes of \<^verbatim>\<open>json.encoder.py_encode_basestring\<close>: the quote, the backslash, the
  five named control characters, and \<^verbatim>\<open>\u00XX\<close> for the other characters below
  \<open>0x20\<close>.
\<close>

definition escape_char :: "char \<Rightarrow> string" where
  "escape_char c =
     (if c = dq then [backslash, dq]
      else if c = backslash then [backslash, backslash]
      else if c = CHR 0x0A then [backslash, CHR ''n'']
      else if c = CHR 0x0D then [backslash, CHR ''r'']
      else if c = CHR 0x09 then [backslash, CHR ''t'']
      else if c = CHR 0x08 then [backslash, CHR ''b'']
      else if c = CHR 0x0C then [backslash, CHR ''f'']
      else if of_char c < (32 :: nat)
        then [backslash, CHR ''u'', CHR ''0'', CHR ''0'',
              hex_char (of_char c div 16), hex_char (of_char c mod 16)]
      else [c])"

definition dumps_str :: "string \<Rightarrow> string" where
  "dumps_str s = dq # concat (map escape_char s) @ [dq]"

text \<open>\<^verbatim>\<open>sep.join(parts)\<close>.\<close>

fun join :: "string \<Rightarrow> string list \<Rightarrow> string" where
  "join sep [] = []"
| "join sep [x] = x"
| "join sep (x # y # ys) = x @ sep @ join sep (y # ys)"

fun dumps :: "json \<Rightarrow> string" where
  "dumps JNull = ''null''"
| "dumps (JBool b) = (if b then ''true'' else ''false'')"
| "dumps (JInt i) = show_int i"
| "dumps (JStr s) = dumps_str s"
| "dumps (JArr xs) = ''['' @ join '', '' (map dumps xs) @ '']''"
| "dumps (JObj d) =
     ''{'' @ join '', '' (map (\<lambda>kv. dumps_str (fst kv) @ '': '' @ dumps (snd kv)) d) @ ''}''"

subsection \<open>\<^verbatim>\<open>json.loads\<close>\<close>

text \<open>
  \<^verbatim>\<open>json.loads\<close> belongs to the Python library, so the functions that parse log lines take
  the decoder as a parameter: \<open>None\<close> stands for \<^verbatim>\<open>JSONDecodeError\<close>. The properties
  proved for every decoder need nothing more. Concrete inputs are run with
  \<open>json_loads\<close>, a recursive-descent parser for the JSON grammar restricted to the
  values of type \<open>json\<close>: integers without fraction or exponent, and \<^verbatim>\<open>\uXXXX\<close> below
  \<open>0x100\<close>; what it does not cover it rejects.
\<close>

type_synonym decoder = "string \<Rightarrow> json option"

definition is_ws :: "char \<Rightarrow> bool" where
  "is_ws c \<longleftrightarrow> c = CHR 0x20 \<or> c = CHR 0x09 \<or> c = CHR 0x0A \<or> c = CHR 0x0D"

definition skip_ws :: "string \<Rightarrow> string" where
  "skip_ws s = dropWhile is_ws s"

definition is_digit :: "char \<Rightarrow> bool" where
  "is_digit c \<longleftrightarrow> (48 :: nat) \<le> of_char c \<and> of_char c \<le> (57 :: nat)"

definition digit_val :: "char \<Rightarrow> nat" where
  "digit_val c = of_char c - 48"

definition hex_val :: "char \<Rightarrow> nat option" where
  "hex_val c =
     (let n = (of_char c :: nat) in
      if 48 \<le> n \<and> n \<le> 57 then Some (n - 48)
      else if 97 \<le> n \<and> n \<le> 102 then Some (n - 87)
      else if 65 \<le> n \<and> n \<le> 70 then Some (n - 55)
      else None)"

definition unescape :: "char \<Rightarrow> char option" where
  "unescape e =
     (if e = dq then Some dq
      else if e = backslash then Some backslash
      else if e = CHR ''/'' then Some CHR ''/''
      else if e = CHR ''n'' then Some (CHR 0x0A)
      else if e = CHR ''r'' then Some (CHR 0x0D)
      else if e = CHR ''t'' then Some (CHR 0x09)
      else if e = CHR ''b'' then Some (CHR 0x08)
      else if e = CHR ''f'' then Some (CHR 0x0C)
      else None)"

definition hex4 :: "char \<Rightarrow> char \<Rightarrow> char \<Rightarrow> char \<Rightarrow> nat option" where
  "hex4 a b c d =
     (case (hex_val a, hex_val b, hex_val c, hex_val d) of
        (Some w, Some x, Some y, Some z) \<Rightarrow> Some (((w * 16 + x) * 16 + y) * 16 + z)
      | _ \<Rightarrow> None)"

definition prepend :: "char \<Rightarrow> (string \<times> string) option \<Rightarrow> (string \<times> string) option" where
  "prepend c r = map_option (\<lambda>p. (c # fst p, snd p)) r"

text \<open>The body of a string literal, after its opening quote: the text and the rest.\<close>

fun parse_string_body :: "string \<Rightarrow> (string \<times> string) option" where
  "parse_string_body [] = None"
| "parse_string_body (c # cs) =
     (if c = dq then Some ([], cs)
      else if c = backslash then
        (case cs of
           [] \<Rightarrow> None
         | e # cs' \<Rightarrow>
             (if e = CHR ''u'' then
                (case cs' of
                   h1 # h2 # h3 # h4 # cs'' \<Rightarrow>
                     (case hex4 h1 h2 h3 h4 of
                        None \<Rightarrow> None
                      | Some n \<Rightarrow> if n < 256 then prepend (char_of n) (parse_string_body cs'')
                                  else None)
                 | _ \<Rightarrow> None)
              else (case unescape e of
                      None \<Rightarrow> None
                    | Some ch \<Rightarrow> prepend ch (parse_string_body cs'))))
      else if of_char c < (32 :: nat) then None
      else prepend c (parse_string_body cs))"

definition digits_val :: "string \<Rightarrow> nat" where
  "digits_val ds = foldl (\<lambda>acc d. acc * 10 + digit_val d) 0 ds"

text \<open>An integer literal: \<^verbatim>\<open>-?(0|[1-9][0-9]*)\<close>, not followed by a fraction or exponent.\<close>

definition parse_nat_lit :: "string \<Rightarrow> (nat \<times> string) option" where
  "parse_nat_lit s =
     (let ds = takeWhile is_digit s; rest = dropWhile is_digit s;
          ds' = (if ds \<noteq> [] \<and> hd ds = CHR ''0'' then [CHR ''0''] else ds);
          rest' = drop (length ds') s
      in if ds = [] then None
         else if rest' \<noteq> [] \<and> hd rest' \<in> set [CHR ''.'', CHR ''e'', CHR ''E''] then None
         else Some (digits_val ds', rest'))"

definition parse_number :: "string \<Rightarrow> (json \<times> string) option" where
  "parse_number s =
     (case s of
        [] \<Rightarrow> None
      | c # cs \<Rightarrow>
          if c = CHR ''-'' then map_option (\<lambda>p. (JInt (- int (fst p)), snd p)) (parse_nat_lit cs)
          else map_option (\<lambda>p. (JInt (int (fst p)), snd p)) (parse_nat_lit s))"

definition parse_literal :: "string \<Rightarrow> json \<Rightarrow> string \<Rightarrow> (json \<times> string) option" where
  "parse_literal lit v s = (if prefix lit s then Some (v, drop (length lit) s) else None)"

text \<open>
  The first argument bounds the number of nested calls; \<open>json_loads\<close> starts with more
  than any text of that length needs. A key given twice keeps its first place and its
  last value, as in a Python dict.
\<close>

fun parse_value :: "nat \<Rightarrow> string \<Rightarrow> (json \<times> string) option"
  and parse_items :: "nat \<Rightarrow> string \<Rightarrow> (json list \<times> string) option"
  and parse_members :: "nat \<Rightarrow> string \<Rightarrow> ((string \<times> json) list \<times> string) option" where
  "parse_value 0 s = None"
| "parse_value (Suc n) s =
     (case skip_ws s of
        [] \<Rightarrow> None
      | c # cs \<Rightarrow>
          if c = dq then map_option (\<lambda>p. (JStr (fst p), snd p)) (parse_string_body cs)
          else if c = CHR ''['' then
            (case skip_ws cs of
               [] \<Rightarrow> None
             | d # ds \<Rightarrow> if d = CHR '']'' then Some (JArr [], ds)
                         else map_option (\<lambda>p. (JArr (fst p), snd p)) (parse_items n cs))
          else if c = CHR ''{'' then
            (case skip_ws cs of
               [] \<Rightarrow> None
             | d # ds \<Rightarrow> if d = CHR ''}'' then Some (JObj [], ds)
                         else map_option (\<lambda>p. (JObj (foldl (\<lambda>d kv. dict_set d (fst kv) (snd kv)) [] (fst p)), snd p))
                                (parse_members n cs))
          else if c = CHR ''n'' then parse_literal ''null'' JNull (c # cs)
          else if c = CHR ''t'' then parse_literal ''true'' (JBool True) (c # cs)
          else if c = CHR ''f'' then parse_literal ''false'' (JBool False) (c # cs)
          else parse_number (c # cs))"
| "parse_items 0 s = None"
| "parse_items (Suc n) s =
     (case parse_value n s of
        None \<Rightarrow> None
      | Some (v, r) \<Rightarrow>
          (case skip_ws r of
             [] \<Rightarrow> None
           | c # cs \<Rightarrow>
               if c = CHR '','' then map_option (\<lambda>p. (v # fst p, snd p)) (parse_items n cs)
               else if c = CHR '']'' then Some ([v], cs)
               else None))"
| "parse_members 0 s = None"
| "parse_members (Suc n) s =
     (case skip_ws s of
        [] \<Rightarrow> None
      | q # qs \<Rightarrow>
          if q \<noteq> dq then None
          else
            (case parse_string_body qs of
               None \<Rightarrow> None
             | Some (k, r) \<Rightarrow>
                 (case skip_ws r of
                    [] \<Rightarrow> None
                  | c # cs \<Rightarrow>
                      if c \<noteq> CHR '':'' then None
                      else
                        (case parse_value n cs of
                           None \<Rightarrow> None
                         | Some (v, r') \<Rightarrow>
                             (case skip_ws r' of
                                [] \<Rightarrow> None
                              | e # es \<Rightarrow>
                                  if e = CHR '','' then
                                    map_option (\<lambda>p. ((k, v) # fst p, snd p)) (parse_members n es)
                                  else if e = CHR ''}'' then Some ([(k, v)], es)
                                  else None)))))"

definition json_loads :: decoder where
  "json_loads s =
     (case parse_value (2 * length s + 2) s of
        None \<Rightarrow> None
      | Some (v, r) \<Rightarrow> if skip_ws r = [] then Some v else None)"

section \<open>Session logs as text\<close>

text \<open>
  The loop \<^verbatim>\<open>if line.strip(): events.append(json.loads(line))\<close> over a list of lines:
  blank lines are skipped and the first line that does not decode raises.
\<close>

fun parse_lines :: "decoder \<Rightarrow> string list \<Rightarrow> error + json list" where
  "parse_lines loads [] = Inr []"
| "parse_lines loads (line # rest) =
     (if strip line = [] then parse_lines loads rest
      else (case loads line of
              None \<Rightarrow> Inl JSONDecodeError
            | Some event \<Rightarrow>
                (case parse_lines loads rest of
                   Inl e \<Rightarrow> Inl e
                 | Inr events \<Rightarrow> Inr (event # events))))"

text \<open>
  The loop \<^verbatim>\<open>for event in events: f.write(json.dumps(event, ensure_ascii=False) + "\n")\<close>.
\<close>

definition write_events :: "json list \<Rightarrow> string" where
  "write_events events = concat (map (\<lambda>event. dumps event @ [newline]) events)"

subsection \<open>\<^verbatim>\<open>JSONLStorage.read_session\<close> (lib/storage.py)\<close>

text \<open>
  The generator \<^verbatim>\<open>read_session\<close>, run to its end: the events it yields and the error
  that ends it early, if any. The argument is the content of the session file, \<open>None\<close>
  when the file does not exist.
\<close>

fun read_lines :: "decoder \<Rightarrow> string list \<Rightarrow> json list \<times> error option" where
  "read_lines loads [] = ([], None)"
| "read_lines loads (line # rest) =
     (if strip line = [] then read_lines loads rest
      else (case loads line of
              None \<Rightarrow> ([], Some JSONDecodeError)
            | Some event \<Rightarrow>
                (case read_lines loads rest of (events, err) \<Rightarrow> (event # events, err))))"

definition read_session :: "decoder \<Rightarrow> string option \<Rightarrow> json list \<times> error option" where
  "read_session loads file =
     (case file of
        None \<Rightarrow> ([], None)
      | Some content \<Rightarrow> read_lines loads (file_lines content))"



section \<open>Index store and sync (lib/storage.py)\<close>

text \<open>
  The dataclass \<^verbatim>\<open>Event\<close>. The dataclass does not check the types of its fields, so each
  field holds whatever JSON value the log line gave it; \<open>None\<close> is a field left at its
  default \<^verbatim>\<open>None\<close>.
\<close>

record Event =
  ev_id :: json
  ev_session_id :: json
  ev_type :: json
  ev_ts :: json
  ev_agent_session_num :: json
  ev_data :: json
  ev_content :: "json option"
  ev_images :: "json option"

text \<open>
  \<^verbatim>\<open>Event(**data)\<close>: \<^verbatim>\<open>TypeError\<close> when \<^verbatim>\<open>data\<close> is not a dict, has a key that is not a
  field, or lacks one of the four fields without a default. \<^verbatim>\<open>__post_init__\<close> replaces
  a \<^verbatim>\<open>data\<close> of \<^verbatim>\<open>None\<close> by the empty dict.
\<close>

definition event_fields :: "string list" where
  "event_fields = [''id'', ''session_id'', ''type'', ''ts'', ''agent_session_num'',
                   ''data'', ''content'', ''images'']"

definition none_if_null :: "json option \<Rightarrow> json option" where
  "none_if_null v = (case v of Some JNull \<Rightarrow> None | _ \<Rightarrow> v)"

fun mk_event :: "json \<Rightarrow> error + Event" where
  "mk_event (JObj d) =
     (if \<exists>k \<in> set (dict_keys d). k \<notin> set event_fields then Inl TypeError
      else
        (case (dict_get d ''id'', dict_get d ''session_id'', dict_get d ''type'', dict_get d ''ts'') of
           (Some i, Some s, Some t, Some ts) \<Rightarrow>
             Inr \<lparr>ev_id = i, ev_session_id = s, ev_type = t, ev_ts = ts,
                  ev_agent_session_num = dict_get_or d ''agent_session_num'' (JInt 0),
                  ev_data = (case none_if_null (dict_get d ''data'') of
                               None \<Rightarrow> JObj [] | Some v \<Rightarrow> v),
                  ev_content = none_if_null (dict_get d ''content''),
                  ev_images = none_if_null (dict_get d ''images'')\<rparr>
         | _ \<Rightarrow> Inl TypeError))"
| "mk_event _ = Inl TypeError"

text \<open>The dataclass \<^verbatim>\<open>Session\<close>, with the fields \<^verbatim>\<open>_update_session_from_events\<close> sets.\<close>

record Session =
  s_id :: string
  s_started_at :: json
  s_ended_at :: json
  s_cwd :: "json option"
  s_event_count :: nat

text \<open>A row of the full-text table \<^verbatim>\<open>events_fts\<close>.\<close>

type_synonym fts_row = "json \<times> json \<times> json \<times> json"

text \<open>
  The database: the table \<^verbatim>\<open>events\<close> (primary key \<^verbatim>\<open>id\<close>) as the list of its rows, the
  table \<^verbatim>\<open>events_fts\<close> (it has no key: every insert adds a row), the table \<^verbatim>\<open>sessions\<close>
  and the table \<^verbatim>\<open>sync_state\<close> with the cursor and the time of the last sync of each
  session. Two ids are the same key when they are the same JSON value (the type
  affinity of SQLite columns is not modelled).
\<close>

record SQLiteStorage =
  events_table :: "Event list"
  events_fts :: "fts_row list"
  sessions_table :: "(string, Session) dict"
  sync_state :: "(string, nat \<times> string) dict"

text \<open>
  The storage manager: the session log files by session id (\<open>None\<close>: no such file) and
  the database.
\<close>

record StorageManager =
  jsonl :: "string \<Rightarrow> string option"
  sqlite :: SQLiteStorage

text \<open>
  The values \<^verbatim>\<open>sqlite3\<close> binds to a statement parameter are \<^verbatim>\<open>None\<close>, numbers and text; a
  list or a dict raises. The columns \<^verbatim>\<open>session_id\<close>, \<^verbatim>\<open>type\<close> and \<^verbatim>\<open>ts\<close> are
  \<^verbatim>\<open>NOT NULL\<close>.
\<close>

fun bindable :: "json \<Rightarrow> bool" where
  "bindable (JArr xs) = False"
| "bindable (JObj d) = False"
| "bindable _ = True"

definition insertable :: "Event \<Rightarrow> bool" where
  "insertable event \<longleftrightarrow>
     bindable (ev_id event) \<and> bindable (ev_session_id event) \<and> bindable (ev_type event)
     \<and> bindable (ev_ts event) \<and> bindable (ev_agent_session_num event)
     \<and> (case ev_content event of None \<Rightarrow> True | Some c \<Rightarrow> bindable c)
     \<and> ev_session_id event \<noteq> JNull \<and> ev_type event \<noteq> JNull \<and> ev_ts event \<noteq> JNull"

text \<open>
  \<^verbatim>\<open>insert_event\<close>: \<^verbatim>\<open>INSERT OR REPLACE\<close> removes the row with the same id (a \<^verbatim>\<open>NULL\<close> id
  conflicts with no row) and adds the new one; the full-text row is added when
  \<^verbatim>\<open>event.content\<close> is truthy.
\<close>

definition insert_event :: "SQLiteStorage \<Rightarrow> Event \<Rightarrow> error + SQLiteStorage" where
  "insert_event db event =
     (if \<not> insertable event then Inl SQLiteError
      else
        let db1 = db\<lparr>events_table :=
                       filter (\<lambda>row. ev_id event = JNull \<or> ev_id row \<noteq> ev_id event) (events_table db)
                         @ [event]\<rparr>
        in case ev_content event of
             None \<Rightarrow> Inr db1
           | Some c \<Rightarrow>
               if truthy c
               then Inr (db1\<lparr>events_fts := events_fts db1
                              @ [(ev_id event, ev_session_id event, ev_type event, c)]\<rparr>)
               else Inr db1)"

definition get_sync_position :: "SQLiteStorage \<Rightarrow> string \<Rightarrow> nat" where
  "get_sync_position db session_id =
     (case dict_get (sync_state db) session_id of None \<Rightarrow> 0 | Some row \<Rightarrow> fst row)"

definition update_sync_position :: "string \<Rightarrow> SQLiteStorage \<Rightarrow> string \<Rightarrow> nat \<Rightarrow> SQLiteStorage" where
  "update_sync_position now db session_id position =
     db\<lparr>sync_state := dict_set (sync_state db) session_id (position, now)\<rparr>"

text \<open>\<^verbatim>\<open>get_last_position\<close>: the size of the session file, 0 when there is none.\<close>

definition get_last_position :: "(string \<Rightarrow> string option) \<Rightarrow> string \<Rightarrow> nat" where
  "get_last_position files session_id =
     (case files session_id of None \<Rightarrow> 0 | Some content \<Rightarrow> length content)"

text \<open>
  \<^verbatim>\<open>_update_session_from_events\<close>. The aggregates \<^verbatim>\<open>MIN(ts)\<close> and \<^verbatim>\<open>MAX(ts)\<close> belong to
  SQLite and are parameters (\<open>sql_min\<close>, \<open>sql_max\<close>, applied to a non-empty list). The
  column \<^verbatim>\<open>data\<close> holds \<^verbatim>\<open>json.dumps(event.data)\<close>; reading it back with \<^verbatim>\<open>json.loads\<close> is
  taken to give \<^verbatim>\<open>event.data\<close> again.
\<close>

definition first_event_cwd :: "json option \<Rightarrow> json option" where
  "first_event_cwd first_event_data =
     (case first_event_data of
        None \<Rightarrow> None
      | Some fe \<Rightarrow>
          if \<not> truthy fe then None
          else (case py_get fe ''data'' of
                  Inr (Some (JObj d)) \<Rightarrow> none_if_null (dict_get d ''cwd'')
                | _ \<Rightarrow> None))"

definition is_truthy_opt :: "json option \<Rightarrow> bool" where
  "is_truthy_opt v = (case v of None \<Rightarrow> False | Some x \<Rightarrow> truthy x)"

definition update_session_from_events ::
  "(json list \<Rightarrow> json) \<Rightarrow> (json list \<Rightarrow> json) \<Rightarrow> SQLiteStorage \<Rightarrow> string \<Rightarrow> json option
     \<Rightarrow> SQLiteStorage" where
  "update_session_from_events sql_min sql_max db session_id first_event_data =
     (let rows = filter (\<lambda>row. ev_session_id row = JStr session_id) (events_table db) in
      if rows = [] \<or> \<not> truthy (sql_min (map ev_ts rows)) then db
      else
        let cwd = first_event_cwd first_event_data;
            cwd = (if \<not> is_truthy_opt cwd
                   then (case filter (\<lambda>row. ev_type row = JStr ''SessionStart'') rows of
                           [] \<Rightarrow> cwd
                         | row # _ \<Rightarrow>
                             (case py_get (ev_data row) ''cwd'' of
                                Inl e \<Rightarrow> cwd
                              | Inr v \<Rightarrow> none_if_null v))
                   else cwd);
            session = \<lparr>s_id = session_id, s_started_at = sql_min (map ev_ts rows),
                       s_ended_at = sql_max (map ev_ts rows), s_cwd = cwd,
                       s_event_count = length rows\<rparr>
        in db\<lparr>sessions_table := dict_set (sessions_table db) session_id session\<rparr>)"

text \<open>
  The loop of \<^verbatim>\<open>sync_session\<close> over the lines read from the cursor on. Each
  \<^verbatim>\<open>insert_event\<close> commits, so the rows inserted before an exception stay. The result is
  the error if one is raised, the new database, \<^verbatim>\<open>events_synced\<close> and
  \<^verbatim>\<open>first_event_data\<close>.
\<close>

fun sync_lines ::
  "decoder \<Rightarrow> string list \<Rightarrow> SQLiteStorage \<Rightarrow> nat \<Rightarrow> json option
     \<Rightarrow> error option \<times> SQLiteStorage \<times> nat \<times> json option" where
  "sync_lines loads [] db events_synced first_event_data =
     (None, db, events_synced, first_event_data)"
| "sync_lines loads (line # rest) db events_synced first_event_data =
     (if strip line = [] then sync_lines loads rest db events_synced first_event_data
      else
        (case loads line of
           None \<Rightarrow> (Some JSONDecodeError, db, events_synced, first_event_data)
         | Some data \<Rightarrow>
             (case mk_event data of
                Inl e \<Rightarrow> (Some e, db, events_synced, first_event_data)
              | Inr event \<Rightarrow>
                  (case insert_event db event of
                     Inl e \<Rightarrow> (Some e, db, events_synced, first_event_data)
                   | Inr db' \<Rightarrow>
                       sync_lines loads rest db' (events_synced + 1)
                         (case first_event_data of None \<Rightarrow> Some data | Some fe \<Rightarrow> Some fe)))))"

text \<open>
  \<^verbatim>\<open>StorageManager.sync_session\<close>: the result (the number of events synced, or the
  error raised) and the storage afterwards. \<open>now\<close> is the clock read by
  \<^verbatim>\<open>update_sync_position\<close>. The file offset counts characters, which are bytes here.
\<close>

definition sync_session ::
  "decoder \<Rightarrow> (json list \<Rightarrow> json) \<Rightarrow> (json list \<Rightarrow> json) \<Rightarrow> string \<Rightarrow> StorageManager \<Rightarrow> string
     \<Rightarrow> (error + nat) \<times> StorageManager" where
  "sync_session loads sql_min sql_max now st session_id =
     (let last_pos = get_sync_position (sqlite st) session_id;
          current_pos = get_last_position (jsonl st) session_id
      in if current_pos \<le> last_pos then (Inr 0, st)
         else
           (case jsonl st session_id of
              None \<Rightarrow> (Inl OSError, st)
            | Some content \<Rightarrow>
                (case sync_lines loads (file_lines (drop last_pos content)) (sqlite st) 0 None of
                   (Some e, db, events_synced, first_event_data) \<Rightarrow> (Inl e, st\<lparr>sqlite := db\<rparr>)
                 | (None, db, events_synced, first_event_data) \<Rightarrow>
                     let db1 = update_sync_position now db session_id current_pos;
                         db2 = update_session_from_events sql_min sql_max db1 session_id
                                 first_event_data
                     in (Inr events_synced, st\<lparr>sqlite := db2\<rparr>))))"

text \<open>The number of rows the index holds for a session.\<close>

definition index_event_count :: "SQLiteStorage \<Rightarrow> string \<Rightarrow> nat" where
  "index_event_count db session_id =
     length (filter (\<lambda>row. ev_session_id row = JStr session_id) (events_table db))"


definition empty_db :: SQLiteStorage where
  "empty_db = \<lparr>events_table = [], events_fts = [], sessions_table = [], sync_state = []\<rparr>"








section \<open>Correlating transcript images with the log (hooks/log\_event.py)\<close>

text \<open>\<^verbatim>\<open>event.get("type") == "UserPromptSubmit"\<close>, for a decoded event that is a dict.\<close>

fun is_user_prompt :: "json \<Rightarrow> bool" where
  "is_user_prompt (JObj d) = (dict_get d ''type'' = Some (JStr ''UserPromptSubmit''))"
| "is_user_prompt _ = False"

text \<open>\<^verbatim>\<open>key in event\<close> and \<^verbatim>\<open>event[key] = value\<close> on a dict.\<close>

fun has_key :: "json \<Rightarrow> string \<Rightarrow> bool" where
  "has_key (JObj d) k = dict_has d k"
| "has_key _ k = False"

fun set_key :: "json \<Rightarrow> string \<Rightarrow> json \<Rightarrow> json" where
  "set_key (JObj d) k v = JObj (dict_set d k v)"
| "set_key j k v = j"

text \<open>
  The reading loop of \<^verbatim>\<open>update_session_with_images\<close>: a line that does not decode
  raises \<^verbatim>\<open>JSONDecodeError\<close>, and a decoded value that is not a dict has no \<^verbatim>\<open>get\<close> and
  raises \<^verbatim>\<open>AttributeError\<close>.
\<close>

fun parse_dict_lines :: "decoder \<Rightarrow> string list \<Rightarrow> error + json list" where
  "parse_dict_lines loads [] = Inr []"
| "parse_dict_lines loads (line # rest) =
     (if strip line = [] then parse_dict_lines loads rest
      else (case loads line of
              None \<Rightarrow> Inl JSONDecodeError
            | Some event \<Rightarrow>
                if \<not> is_dict event then Inl AttributeError
                else (case parse_dict_lines loads rest of
                        Inl e \<Rightarrow> Inl e
                      | Inr events \<Rightarrow> Inr (event # events))))"

text \<open>\<^verbatim>\<open>user_prompt_indices\<close>: the positions of the UserPromptSubmit events, ascending.\<close>

definition user_prompt_indices :: "json list \<Rightarrow> nat list" where
  "user_prompt_indices events = filter (\<lambda>i. is_user_prompt (events ! i)) [0..<length events]"

text \<open>
  The loop \<^verbatim>\<open>for msg_idx, image_refs in image_refs_by_msg.items()\<close>. The keys are the
  0-based positions of the user messages of the transcript, so they are naturals.
\<close>

fun patch_loop :: "(nat \<times> json) list \<Rightarrow> nat list \<Rightarrow> json list \<Rightarrow> bool \<Rightarrow> json list \<times> bool" where
  "patch_loop [] upi events updated = (events, updated)"
| "patch_loop ((msg_idx, image_refs) # rest) upi events updated =
     (if msg_idx < length upi then
        (let event_idx = upi ! msg_idx; event = events ! event_idx in
         if \<not> has_key event ''images''
         then patch_loop rest upi (events[event_idx := set_key event ''images'' image_refs]) True
         else patch_loop rest upi events updated)
      else patch_loop rest upi events updated)"

text \<open>
  \<^verbatim>\<open>update_session_with_images\<close>: the session file afterwards and the exception handed
  to \<^verbatim>\<open>log_error\<close>, if one was raised. The file is rewritten only when an event was
  patched. Writing the file is taken to succeed.
\<close>

definition update_session_with_images ::
  "decoder \<Rightarrow> string option \<Rightarrow> (nat \<times> json) list \<Rightarrow> string option \<times> error option" where
  "update_session_with_images loads file image_refs_by_msg =
     (case file of
        None \<Rightarrow> (file, None)
      | Some content \<Rightarrow>
          if image_refs_by_msg = [] then (file, None)
          else
            (case parse_dict_lines loads (split_lines (strip content)) of
               Inl e \<Rightarrow> (file, Some e)
             | Inr events \<Rightarrow>
                 (case patch_loop image_refs_by_msg (user_prompt_indices events) events False of
                    (events', updated) \<Rightarrow>
                      if updated then (Some (write_events events'), None) else (file, None))))"

text \<open>
  The frame the claim describes. The ordinal of an event is the number of
  UserPromptSubmit events before it; an event is changed only if it is a
  UserPromptSubmit event without an \<^verbatim>\<open>images\<close> field whose ordinal is a key of the
  mapping, and then it gains the field with the references filed under that ordinal.
\<close>

definition ups_ordinal :: "json list \<Rightarrow> nat \<Rightarrow> nat" where
  "ups_ordinal events i = length (filter is_user_prompt (take i events))"

definition expected_event :: "(nat \<times> json) list \<Rightarrow> json list \<Rightarrow> nat \<Rightarrow> json" where
  "expected_event refs events i =
     (let e = events ! i in
      if is_user_prompt e \<and> \<not> has_key e ''images''
      then (case dict_get refs (ups_ordinal events i) of
              Some r \<Rightarrow> set_key e ''images'' r
            | None \<Rightarrow> e)
      else e)"

definition expected_events :: "(nat \<times> json) list \<Rightarrow> json list \<Rightarrow> json list" where
  "expected_events refs events = map (expected_event refs events) [0..<length events]"




section \<open>Repair of missing assistant responses (tools/repair\_sessions.py)\<close>

text \<open>\<^verbatim>\<open>x.get(key, default)\<close>.\<close>

definition py_get_or :: "json \<Rightarrow> string \<Rightarrow> json \<Rightarrow> error + json" where
  "py_get_or x k dflt =
     (case py_get x k of
        Inl e \<Rightarrow> Inl e
      | Inr None \<Rightarrow> Inr dflt
      | Inr (Some v) \<Rightarrow> Inr v)"

text \<open>
  The inner loop of \<^verbatim>\<open>get_response\<close> over the content blocks of an assistant entry: the
  text of the first block of type \<^verbatim>\<open>text\<close>, nothing when there is none, or an exception
  (a block that is not a dict has no \<^verbatim>\<open>get\<close>).
\<close>

datatype block_scan = Found json | NotFound | Raised

fun scan_blocks :: "json list \<Rightarrow> block_scan" where
  "scan_blocks [] = NotFound"
| "scan_blocks (block # rest) =
     (case py_get block ''type'' of
        Inl e \<Rightarrow> Raised
      | Inr t \<Rightarrow>
          if t = Some (JStr ''text'')
          then (case py_get_or block ''text'' (JStr []) of Inl e \<Rightarrow> Raised | Inr v \<Rightarrow> Found v)
          else scan_blocks rest)"

text \<open>
  \<^verbatim>\<open>for block in content\<close>: a list gives its elements; an empty string or dict gives
  nothing; iterating a non-empty string or dict gives strings, which have no \<^verbatim>\<open>get\<close>,
  and iterating any other value raises.
\<close>

fun scan_content :: "json \<Rightarrow> block_scan" where
  "scan_content (JArr blocks) = scan_blocks blocks"
| "scan_content (JStr s) = (if s = [] then NotFound else Raised)"
| "scan_content (JObj d) = (if d = [] then NotFound else Raised)"
| "scan_content _ = Raised"

text \<open>
  The outer loop of \<^verbatim>\<open>get_response\<close> over the lines of the transcript, last line first.
  Every exception ends the function with the empty string.
\<close>

fun scan_transcript :: "decoder \<Rightarrow> string list \<Rightarrow> json" where
  "scan_transcript loads [] = JStr []"
| "scan_transcript loads (line # rest) =
     (if strip line = [] then scan_transcript loads rest
      else
        (case loads line of
           None \<Rightarrow> JStr []
         | Some entry \<Rightarrow>
             (case py_get entry ''type'' of
                Inl e \<Rightarrow> JStr []
              | Inr t \<Rightarrow>
                  if t = Some (JStr ''assistant'') then
                    (case py_get_or entry ''message'' (JObj []) of
                       Inl e \<Rightarrow> JStr []
                     | Inr message \<Rightarrow>
                         (case py_get_or message ''content'' (JArr []) of
                            Inl e \<Rightarrow> JStr []
                          | Inr content \<Rightarrow>
                              (case scan_content content of
                                 Found v \<Rightarrow> v
                               | Raised \<Rightarrow> JStr []
                               | NotFound \<Rightarrow> scan_transcript loads rest)))
                  else scan_transcript loads rest)))"

text \<open>
  \<^verbatim>\<open>get_response\<close>. The transcripts are files outside the log: \<open>fs\<close> gives the content of
  a path, \<open>None\<close> when there is no such file (reading it raises, which is caught).
\<close>

definition get_response :: "decoder \<Rightarrow> (string \<Rightarrow> string option) \<Rightarrow> string \<Rightarrow> json" where
  "get_response loads fs transcript_path =
     (case fs transcript_path of
        None \<Rightarrow> JStr []
      | Some content \<Rightarrow> scan_transcript loads (rev (split_lines (strip content))))"

text \<open>An entry of the list \<^verbatim>\<open>missing\<close> built by \<^verbatim>\<open>analyze_session\<close>.\<close>

record missing =
  m_index :: nat
  m_stop_event :: json
  m_transcript_path :: string
  m_transcript_exists :: bool

text \<open>
  The loop of \<^verbatim>\<open>analyze_session\<close>, from index \<open>i\<close> on. \<^verbatim>\<open>Path(transcript_path)\<close> raises
  \<^verbatim>\<open>TypeError\<close> for a truthy value that is not a string.
\<close>

fun analyze_from :: "(string \<Rightarrow> string option) \<Rightarrow> nat \<Rightarrow> json list \<Rightarrow> error + missing list" where
  "analyze_from fs i [] = Inr []"
| "analyze_from fs i (event # rest) =
     (case py_get event ''type'' of
        Inl e \<Rightarrow> Inl e
      | Inr t \<Rightarrow>
          if t = Some (JStr ''Stop'') then
            (case py_get_or event ''data'' (JObj []) of
               Inl e \<Rightarrow> Inl e
             | Inr data \<Rightarrow>
                 (case py_get data ''transcript_path'' of
                    Inl e \<Rightarrow> Inl e
                  | Inr transcript_path \<Rightarrow>
                      (case (case rest of
                               [] \<Rightarrow> Inr False
                             | next_event # _ \<Rightarrow>
                                 (case py_get next_event ''type'' of
                                    Inl e \<Rightarrow> Inl e
                                  | Inr t' \<Rightarrow> Inr (t' = Some (JStr ''AssistantResponse'')))) of
                         Inl e \<Rightarrow> Inl e
                       | Inr has_response \<Rightarrow>
                           if \<not> has_response \<and> is_truthy_opt transcript_path then
                             (case transcript_path of
                                Some (JStr p) \<Rightarrow>
                                  (case analyze_from fs (Suc i) rest of
                                     Inl e \<Rightarrow> Inl e
                                   | Inr ms \<Rightarrow>
                                       Inr (\<lparr>m_index = i, m_stop_event = event,
                                             m_transcript_path = p,
                                             m_transcript_exists = (fs p \<noteq> None)\<rparr> # ms))
                              | _ \<Rightarrow> Inl TypeError)
                           else analyze_from fs (Suc i) rest)))
          else analyze_from fs (Suc i) rest)"

text \<open>
  \<^verbatim>\<open>analyze_session\<close>: the file is read with the loop \<open>parse_lines\<close>; a missing file raises.
\<close>

definition analyze_session ::
  "decoder \<Rightarrow> (string \<Rightarrow> string option) \<Rightarrow> string option \<Rightarrow> error + missing list" where
  "analyze_session loads fs file =
     (case file of
        None \<Rightarrow> Inl OSError
      | Some content \<Rightarrow>
          (case parse_lines loads (file_lines content) of
             Inl e \<Rightarrow> Inl e
           | Inr events \<Rightarrow> analyze_from fs 0 events))"

text \<open>\<^verbatim>\<open>f"{idx:04d}"\<close>: the decimal number, padded with zeros to four characters.\<close>

definition pad4 :: "nat \<Rightarrow> string" where
  "pad4 n = replicate (4 - length (show_nat n)) (CHR ''0'') @ show_nat n"

text \<open>\<^verbatim>\<open>d[key]\<close> on a dict.\<close>

fun py_index :: "json \<Rightarrow> string \<Rightarrow> error + json" where
  "py_index (JObj d) k = (case dict_get d k of None \<Rightarrow> Inl (KeyError k) | Some v \<Rightarrow> Inr v)"
| "py_index _ k = Inl TypeError"

text \<open>The counters and the list of events the repair loop carries.\<close>

record repair_state =
  r_events :: "json list"
  r_repaired :: nat
  r_failed :: nat
  r_skipped :: nat
  r_last_response :: "json option"

text \<open>
  The loop of \<^verbatim>\<open>repair_session\<close> over \<^verbatim>\<open>reversed(missing)\<close>: the argument is the reversed
  list. The previews printed for a response slice it as a string, so a truthy response
  that is not a string raises.
\<close>

fun repair_loop ::
  "decoder \<Rightarrow> (string \<Rightarrow> string option) \<Rightarrow> missing list \<Rightarrow> repair_state \<Rightarrow> error + repair_state" where
  "repair_loop loads fs [] st = Inr st"
| "repair_loop loads fs (m # rest) st =
     (if \<not> m_transcript_exists m then repair_loop loads fs rest (st\<lparr>r_failed := r_failed st + 1\<rparr>)
      else
        let response = get_response loads fs (m_transcript_path m) in
        if \<not> truthy response then repair_loop loads fs rest (st\<lparr>r_failed := r_failed st + 1\<rparr>)
        else
          (case response of
             JStr text \<Rightarrow>
               if r_last_response st = Some response
               then repair_loop loads fs rest (st\<lparr>r_skipped := r_skipped st + 1\<rparr>)
               else
                 (case (py_index (m_stop_event m) ''ts'', py_index (m_stop_event m) ''session_id'') of
                    (Inl e, _) \<Rightarrow> Inl e
                  | (Inr ts, Inl e) \<Rightarrow> Inl e
                  | (Inr ts, Inr session_id) \<Rightarrow>
                      let assistant_event =
                            JObj [(''id'', JStr (''evt_repair_'' @ pad4 (m_index m))),
                                  (''type'', JStr ''AssistantResponse''),
                                  (''ts'', ts),
                                  (''session_id'', session_id),
                                  (''agent_session_num'',
                                     (case py_get (m_stop_event m) ''agent_session_num'' of
                                        Inr (Some v) \<Rightarrow> v | _ \<Rightarrow> JInt 0)),
                                  (''data'', JObj [(''response'', response)]),
                                  (''content'', response)]
                      in repair_loop loads fs rest
                           (st\<lparr>r_events := take (m_index m + 1) (r_events st) @ [assistant_event]
                                              @ drop (m_index m + 1) (r_events st),
                               r_repaired := r_repaired st + 1,
                               r_last_response := Some response\<rparr>))
           | _ \<Rightarrow> Inl TypeError))"

text \<open>The counts \<^verbatim>\<open>repair_session\<close> returns.\<close>

record repair_result =
  res_missing :: nat
  res_repaired :: nat
  res_failed :: nat
  res_skipped :: nat

text \<open>
  The analysis and the loop of \<^verbatim>\<open>repair_session\<close>: \<open>None\<close> when nothing is missing (the
  early return), else the number of missing responses and the state after the loop.
\<close>

definition repair_run ::
  "decoder \<Rightarrow> (string \<Rightarrow> string option) \<Rightarrow> string option \<Rightarrow> error + (nat \<times> repair_state) option" where
  "repair_run loads fs file =
     (case analyze_session loads fs file of
        Inl e \<Rightarrow> Inl e
      | Inr missing \<Rightarrow>
          if missing = [] then Inr None
          else
            (case file of
               None \<Rightarrow> Inl OSError
             | Some content \<Rightarrow>
                 (case parse_lines loads (file_lines content) of
                    Inl e \<Rightarrow> Inl e
                  | Inr events \<Rightarrow>
                      (case repair_loop loads fs (rev missing)
                              \<lparr>r_events = events, r_repaired = 0, r_failed = 0, r_skipped = 0,
                               r_last_response = None\<rparr> of
                         Inl e \<Rightarrow> Inl e
                       | Inr st \<Rightarrow> Inr (Some (length missing, st))))))"

text \<open>
  \<^verbatim>\<open>repair_session\<close>: the counts and the session file afterwards. The file is written
  only when \<^verbatim>\<open>not dry_run and repaired > 0\<close>.
\<close>

definition repair_session ::
  "decoder \<Rightarrow> (string \<Rightarrow> string option) \<Rightarrow> string option \<Rightarrow> bool
     \<Rightarrow> error + (repair_result \<times> string option)" where
  "repair_session loads fs file dry_run =
     (case repair_run loads fs file of
        Inl e \<Rightarrow> Inl e
      | Inr None \<Rightarrow>
          Inr (\<lparr>res_missing = 0, res_repaired = 0, res_failed = 0, res_skipped = 0\<rparr>, file)
      | Inr (Some (n_missing, st)) \<Rightarrow>
          Inr (\<lparr>res_missing = n_missing, res_repaired = r_repaired st,
                res_failed = r_failed st, res_skipped = r_skipped st\<rparr>,
               if \<not> dry_run \<and> 0 < r_repaired st
               then Some (write_events (r_events st)) else file))"

text \<open>
  Concrete inputs: a session in which two turns ended without a captured response. Both
  Stop events name the transcript of the session, whose last assistant text is
  \<^verbatim>\<open>hi there\<close>.
\<close>

definition stop_with_transcript :: "string \<Rightarrow> json" where
  "stop_with_transcript i =
     JObj [(''id'', JStr i), (''type'', JStr ''Stop''), (''ts'', JStr ''2025-01-01T00:00:00''),
           (''session_id'', JStr ''s1''), (''agent_session_num'', JInt 0),
           (''data'', JObj [(''transcript_path'', JStr ''/tmp/transcript.jsonl'')])]"

definition prompt_with_id :: "string \<Rightarrow> json" where
  "prompt_with_id i =
     JObj [(''id'', JStr i), (''type'', JStr ''UserPromptSubmit''),
           (''ts'', JStr ''2025-01-01T00:00:00''), (''session_id'', JStr ''s1''),
           (''agent_session_num'', JInt 0), (''data'', JObj [(''prompt'', JStr ''hello'')])]"

definition gap_log :: string where
  "gap_log = write_events [prompt_with_id ''evt_a'', stop_with_transcript ''evt_b'',
                           prompt_with_id ''evt_c'', stop_with_transcript ''evt_d'']"

definition transcript_fs :: "string \<Rightarrow> string option" where
  \<open>transcript_fs path =
     (if path = ''/tmp/transcript.jsonl''
      then Some (''{"type": "user", "message": {"content": "hello"}}'' @ [newline]
                 @ ''{"type": "assistant", "message": {"content": [{"type": "text", "text": "hi there"}]}}''
                 @ [newline])
      else None)\<close>

definition repaired_event :: "string \<Rightarrow> json" where
  "repaired_event i =
     JObj [(''id'', JStr i), (''type'', JStr ''AssistantResponse''),
           (''ts'', JStr ''2025-01-01T00:00:00''), (''session_id'', JStr ''s1''),
           (''agent_session_num'', JInt 0), (''data'', JObj [(''response'', JStr ''hi there'')]),
           (''content'', JStr ''hi there'')]"

section \<open>Extracting images from a prompt (hooks/log\_event.py)\<close>

text \<open>
  The library functions the extraction calls are parameters: \<^verbatim>\<open>b64decode\<close> (\<open>None\<close> when it
  raises), \<^verbatim>\<open>hashlib.sha256(...).hexdigest()\<close>, \<^verbatim>\<open>mimetypes.guess_extension\<close> and \<^verbatim>\<open>str\<close>
  applied to a block that is not a dict.
\<close>

record image_env =
  b64decode :: "json \<Rightarrow> string option"
  sha256_hexdigest :: "string \<Rightarrow> string"
  guess_extension :: "string \<Rightarrow> string option"
  py_str :: "json \<Rightarrow> string"

text \<open>
  The state of the loop over the blocks: \<^verbatim>\<open>text_parts\<close>, \<^verbatim>\<open>image_refs\<close>, the files of the
  storage directory by their path relative to it, and the contexts handed to
  \<^verbatim>\<open>log_error\<close>.
\<close>

record extract_state =
  x_text_parts :: "json list"
  x_image_refs :: "json list"
  x_files :: "(string \<times> string) list"
  x_logged :: "string list"

definition ALLOWED_IMAGE_TYPES :: "string list" where
  "ALLOWED_IMAGE_TYPES = [''image/jpeg'', ''image/jpg'', ''image/png'', ''image/gif'', ''image/webp'']"

text \<open>
  \<^verbatim>\<open>media_type = source.get("media_type", "image/jpeg")\<close> followed by the test against the
  allow-list: a list or dict cannot be hashed for the set lookup, which raises
  \<^verbatim>\<open>TypeError\<close>; any other value outside the list is replaced by the default.
\<close>

definition normalize_media_type :: "json option \<Rightarrow> error + string" where
  "normalize_media_type v =
     (case v of
        None \<Rightarrow> Inr ''image/jpeg''
      | Some (JStr s) \<Rightarrow> if s \<in> set ALLOWED_IMAGE_TYPES then Inr s else Inr ''image/jpeg''
      | Some (JArr xs) \<Rightarrow> Inl TypeError
      | Some (JObj d) \<Rightarrow> Inl TypeError
      | Some _ \<Rightarrow> Inr ''image/jpeg'')"

text \<open>
  \<^verbatim>\<open>ext = mimetypes.guess_extension(media_type) or ".jpg"\<close>, with \<^verbatim>\<open>.jpe\<close> replaced by
  \<^verbatim>\<open>.jpg\<close>.
\<close>

definition image_ext :: "image_env \<Rightarrow> string \<Rightarrow> string" where
  "image_ext env media_type =
     (let ext = (case guess_extension env media_type of
                   None \<Rightarrow> ''.jpg''
                 | Some e \<Rightarrow> if e = [] then ''.jpg'' else e)
      in if ext = ''.jpe'' then ''.jpg'' else ext)"

text \<open>\<^verbatim>\<open>filename = f"{content_hash}_{event_id}_{idx}{ext}"\<close>.\<close>

definition image_filename :: "image_env \<Rightarrow> string \<Rightarrow> nat \<Rightarrow> string \<Rightarrow> string \<Rightarrow> string" where
  "image_filename env event_id idx media_type image_bytes =
     take 12 (sha256_hexdigest env image_bytes) @ ''_'' @ event_id @ ''_'' @ show_nat idx
       @ image_ext env media_type"

definition image_path :: "string \<Rightarrow> string \<Rightarrow> string" where
  "image_path session_id filename = ''images/'' @ session_id @ ''/'' @ filename"

definition image_ref :: "string \<Rightarrow> string \<Rightarrow> string \<Rightarrow> string \<Rightarrow> nat \<Rightarrow> json" where
  "image_ref session_id filename media_type image_bytes idx =
     JObj [(''type'', JStr ''image''),
           (''path'', JStr (image_path session_id filename)),
           (''media_type'', JStr media_type),
           (''size'', JInt (int (length image_bytes))),
           (''index'', JInt (int idx))]"

text \<open>\<^verbatim>\<open>if not filepath.exists(): filepath.write_bytes(image_bytes)\<close>.\<close>

definition write_if_absent :: "(string \<times> string) list \<Rightarrow> string \<Rightarrow> string \<Rightarrow> (string \<times> string) list" where
  "write_if_absent files path image_bytes =
     (if dict_has files path then files else dict_set files path image_bytes)"

text \<open>The branch for a block of type \<^verbatim>\<open>image\<close>.\<close>

definition extract_image ::
  "image_env \<Rightarrow> string \<Rightarrow> string \<Rightarrow> nat \<Rightarrow> json \<Rightarrow> extract_state \<Rightarrow> error + extract_state" where
  "extract_image env session_id event_id idx block st =
     (case py_get_or block ''source'' (JObj []) of
        Inl e \<Rightarrow> Inl e
      | Inr source \<Rightarrow>
          (case py_get source ''type'' of
             Inl e \<Rightarrow> Inl e
           | Inr source_type \<Rightarrow>
               if source_type = Some (JStr ''base64'') then
                 (case py_get source ''media_type'' of
                    Inl e \<Rightarrow> Inl e
                  | Inr mt \<Rightarrow>
                      (case normalize_media_type mt of
                         Inl e \<Rightarrow> Inl e
                       | Inr media_type \<Rightarrow>
                           (case py_get_or source ''data'' (JStr []) of
                              Inl e \<Rightarrow> Inl e
                            | Inr data \<Rightarrow>
                                if \<not> truthy data then Inr st
                                else
                                  (case b64decode env data of
                                     None \<Rightarrow> Inr (st\<lparr>x_logged := x_logged st @ [''ImageExtraction'']\<rparr>)
                                   | Some image_bytes \<Rightarrow>
                                       let filename = image_filename env event_id idx media_type image_bytes
                                       in Inr (st\<lparr>x_files := write_if_absent (x_files st)
                                                               (image_path session_id filename) image_bytes,
                                                   x_image_refs := x_image_refs st
                                                     @ [image_ref session_id filename media_type image_bytes idx]\<rparr>)))))
               else if source_type = Some (JStr ''url'') then
                 (case py_get_or source ''url'' (JStr []) of
                    Inl e \<Rightarrow> Inl e
                  | Inr url \<Rightarrow>
                      if \<not> truthy url then Inr st
                      else
                        (case py_get_or source ''media_type'' (JStr ''image/jpeg'') of
                           Inl e \<Rightarrow> Inl e
                         | Inr mt \<Rightarrow>
                             Inr (st\<lparr>x_image_refs := x_image_refs st
                                   @ [JObj [(''type'', JStr ''image''), (''url'', url),
                                            (''media_type'', mt), (''index'', JInt (int idx))]]\<rparr>)))
               else Inr st))"

text \<open>The loop \<^verbatim>\<open>for idx, block in enumerate(prompt)\<close>; \<open>idx\<close> is the index of the head.\<close>

fun extract_blocks ::
  "image_env \<Rightarrow> string \<Rightarrow> string \<Rightarrow> nat \<Rightarrow> json list \<Rightarrow> extract_state \<Rightarrow> error + extract_state" where
  "extract_blocks env session_id event_id idx [] st = Inr st"
| "extract_blocks env session_id event_id idx (block # rest) st =
     (if \<not> is_dict block
      then extract_blocks env session_id event_id (Suc idx) rest
             (st\<lparr>x_text_parts := x_text_parts st @ [JStr (py_str env block)]\<rparr>)
      else
        (case py_get_or block ''type'' (JStr []) of
           Inl e \<Rightarrow> Inl e
         | Inr block_type \<Rightarrow>
             if block_type = JStr ''text'' then
               (case py_get_or block ''text'' (JStr []) of
                  Inl e \<Rightarrow> Inl e
                | Inr t \<Rightarrow>
                    extract_blocks env session_id event_id (Suc idx) rest
                      (st\<lparr>x_text_parts := x_text_parts st @ [t]\<rparr>))
             else if block_type = JStr ''image'' then
               (case extract_image env session_id event_id idx block st of
                  Inl e \<Rightarrow> Inl e
                | Inr st' \<Rightarrow> extract_blocks env session_id event_id (Suc idx) rest st')
             else extract_blocks env session_id event_id (Suc idx) rest st))"

text \<open>\<^verbatim>\<open>"\n".join(text_parts)\<close>: a part that is not a string raises \<^verbatim>\<open>TypeError\<close>.\<close>

fun text_of_parts :: "json list \<Rightarrow> error + string list" where
  "text_of_parts [] = Inr []"
| "text_of_parts (JStr s # rest) =
     (case text_of_parts rest of Inl e \<Rightarrow> Inl e | Inr ss \<Rightarrow> Inr (s # ss))"
| "text_of_parts (_ # rest) = Inl TypeError"

text \<open>
  \<^verbatim>\<open>extract_images_from_prompt\<close>: the combined text, the image references, the files
  afterwards and the contexts of the errors logged.
\<close>

definition extract_images_from_prompt ::
  "image_env \<Rightarrow> (string \<times> string) list \<Rightarrow> string \<Rightarrow> string \<Rightarrow> json
     \<Rightarrow> error + (string \<times> json list \<times> (string \<times> string) list \<times> string list)" where
  "extract_images_from_prompt env files session_id event_id prompt =
     (case prompt of
        JStr s \<Rightarrow> Inr (s, [], files, [])
      | JArr blocks \<Rightarrow>
          (case extract_blocks env session_id event_id 0 blocks
                  \<lparr>x_text_parts = [], x_image_refs = [], x_files = files, x_logged = []\<rparr> of
             Inl e \<Rightarrow> Inl e
           | Inr st \<Rightarrow>
               (case text_of_parts (x_text_parts st) of
                  Inl e \<Rightarrow> Inl e
                | Inr parts \<Rightarrow>
                    Inr (join [newline] parts, x_image_refs st, x_files st, x_logged st)))
      | other \<Rightarrow> Inr (py_str env other, [], files, []))"


text \<open>
  Concrete inputs: the library functions on the values of the example. The base64 text
  \<^verbatim>\<open>dGVzdA==\<close> decodes to \<^verbatim>\<open>test\<close>, whose SHA-256 digest is the one given.
\<close>

definition example_env :: image_env where
  "example_env =
     \<lparr>b64decode = (\<lambda>d. if d = JStr ''dGVzdA=='' then Some ''test'' else None),
      sha256_hexdigest =
        (\<lambda>b. ''9f86d081884c7d659a2feaa0c55ad015a3bf4f1b2b0b822cd15d6c15b0f00a08''),
      guess_extension = (\<lambda>m. if m = ''image/png'' then Some ''.png''
                              else if m = ''image/gif'' then Some ''.gif''
                              else if m = ''image/jpeg'' then Some ''.jpg'' else None),
      py_str = (\<lambda>v. dumps v)\<rparr>"



section \<open>The ingestion hook (hooks/log\_event.py)\<close>

subsection \<open>\<^verbatim>\<open>get_agent_session_num\<close>\<close>

text \<open>\<^verbatim>\<open>source in ("compact", "clear")\<close>, for the value of \<^verbatim>\<open>data.get("source")\<close>.\<close>

definition is_marker :: "json option \<Rightarrow> bool" where
  "is_marker source \<longleftrightarrow> source = Some (JStr ''compact'') \<or> source = Some (JStr ''clear'')"

text \<open>
  \<^verbatim>\<open>get_agent_session_num\<close>. The first argument says whether reading the file raises
  (the \<^verbatim>\<open>except\<close> branch returns 0), the second is the content of the session file,
  \<open>None\<close> when the file does not exist.
\<close>

definition get_agent_session_num :: "bool \<Rightarrow> string option \<Rightarrow> json option \<Rightarrow> int" where
  \<open>get_agent_session_num read_fails file source =
     (case file of
        None \<Rightarrow> (if is_marker source then 1 else 0)
      | Some content \<Rightarrow>
          if read_fails then 0
          else
            let count = int (str_count content ''"source": "compact"'')
                        + int (str_count content ''"source": "clear"'')
            in if is_marker source then count + 1 else count)\<close>

text \<open>
  What the specification says the number is: the number of events logged so far whose
  source marker is \<^verbatim>\<open>compact\<close> or \<^verbatim>\<open>clear\<close>, plus one if the event being appended carries
  such a marker. The source marker of a logged event is the \<^verbatim>\<open>source\<close> of its \<^verbatim>\<open>data\<close>.
\<close>

definition event_marker :: "json \<Rightarrow> json option" where
  "event_marker event =
     (case py_get event ''data'' of
        Inr (Some (JObj d)) \<Rightarrow> dict_get d ''source''
      | _ \<Rightarrow> None)"

definition spec_agent_session_num :: "json list \<Rightarrow> json option \<Rightarrow> int" where
  "spec_agent_session_num logged source =
     int (length (filter (\<lambda>event. is_marker (event_marker event)) logged))
       + (if is_marker source then 1 else 0)"

subsection \<open>The world and the environment of one invocation\<close>

text \<open>
  The files the hook touches: the session logs by session id, the image files, the
  rendered Markdown by session id, and the side error log \<^verbatim>\<open>errors.log\<close>; and the two
  output streams of the process.
\<close>

record world =
  w_sessions :: "string \<Rightarrow> string option"
  w_images :: "(string \<times> string) list"
  w_markdown :: "string \<Rightarrow> string option"
  w_error_log :: string
  w_stdout :: string
  w_stderr :: string

text \<open>
  What one invocation reads from outside: the clock (for the event and for the error
  log), the two random ids, the transcripts, and whether a file operation fails. The
  functions of the hook that only format text are parameters: \<^verbatim>\<open>extract_content\<close> (the
  search summary of an event; it may raise), \<^verbatim>\<open>generate_markdown\<close> (the rendering of a
  log; it may raise), \<^verbatim>\<open>extract_images_from_transcript\<close> (the mapping it returns for a
  transcript; the image files it writes are not tracked), \<^verbatim>\<open>str(error)\<close> and \<^verbatim>\<open>str\<close> of a
  session id that is not a string.
\<close>

record host_env =
  h_now :: string
  h_error_time :: string
  h_event_id :: string
  h_response_id :: string
  h_loads :: decoder
  h_transcripts :: "string \<Rightarrow> string option"
  h_transcript_images :: "json \<Rightarrow> (nat \<times> json) list"
  h_extract_content :: "string \<Rightarrow> json \<Rightarrow> error + json option"
  h_generate_markdown :: "string \<Rightarrow> error + string"
  h_image_env :: image_env
  h_describe :: "error \<Rightarrow> string"
  h_read_fails :: bool
  h_append_fails :: bool
  h_error_log_writable :: bool

subsection \<open>\<^verbatim>\<open>log_error\<close>\<close>

text \<open>
  \<^verbatim>\<open>log_error\<close> appends one line to the error log; when the log cannot be opened or
  written the exception is swallowed and nothing is recorded.
\<close>

definition error_line :: "host_env \<Rightarrow> error \<Rightarrow> string \<Rightarrow> string" where
  "error_line env err event_type =
     h_error_time env @ '' ['' @ event_type @ ''] ERROR: '' @ h_describe env err @ [newline]"

definition log_error :: "host_env \<Rightarrow> world \<Rightarrow> error \<Rightarrow> string \<Rightarrow> world" where
  "log_error env w err event_type =
     (if h_error_log_writable env
      then w\<lparr>w_error_log := w_error_log w @ error_line env err event_type\<rparr>
      else w)"

subsection \<open>\<^verbatim>\<open>append_events\<close>\<close>

text \<open>
  \<^verbatim>\<open>append_events\<close>: the lines are added at the end of the file, which is created when
  absent; a failing \<^verbatim>\<open>open\<close> raises.
\<close>

definition append_text :: "string option \<Rightarrow> json list \<Rightarrow> string" where
  "append_text file events = (case file of None \<Rightarrow> [] | Some c \<Rightarrow> c) @ write_events events"

definition append_events :: "host_env \<Rightarrow> world \<Rightarrow> string \<Rightarrow> json list \<Rightarrow> error + world" where
  "append_events env w session_id events =
     (if h_append_fails env then Inl OSError
      else Inr (w\<lparr>w_sessions := (w_sessions w)
                 (session_id := Some (append_text (w_sessions w session_id) events))\<rparr>))"

subsection \<open>\<^verbatim>\<open>process_event\<close>\<close>

text \<open>\<^verbatim>\<open>get_response\<close> of the hook: a path that is not a string raises, which is caught.\<close>

definition hook_get_response :: "host_env \<Rightarrow> json \<Rightarrow> json" where
  "hook_get_response env transcript_path =
     (case transcript_path of
        JStr p \<Rightarrow> get_response (h_loads env) (h_transcripts env) p
      | _ \<Rightarrow> JStr [])"

text \<open>
  The first statement: \<^verbatim>\<open>stdin_data.get("cwd") or stdin_data.get("data", {}).get("cwd")\<close>.
  Only its exceptions matter here (the storage directory is one).
\<close>

definition read_cwd :: "json \<Rightarrow> error + json option" where
  "read_cwd stdin_data =
     (case py_get stdin_data ''cwd'' of
        Inl e \<Rightarrow> Inl e
      | Inr c \<Rightarrow>
          if is_truthy_opt c then Inr c
          else (case py_get_or stdin_data ''data'' (JObj []) of
                  Inl e \<Rightarrow> Inl e
                | Inr d \<Rightarrow> py_get d ''cwd''))"

text \<open>The image step for a UserPromptSubmit event whose prompt is a list of blocks.\<close>

definition prompt_images ::
  "host_env \<Rightarrow> world \<Rightarrow> string \<Rightarrow> string \<Rightarrow> json
     \<Rightarrow> error + (json \<times> json list \<times> world)" where
  "prompt_images env w session_id event_type data =
     (case data of
        JObj d \<Rightarrow>
          (case dict_get d ''prompt'' of
             Some (JArr blocks) \<Rightarrow>
               if event_type \<noteq> ''UserPromptSubmit'' then Inr (data, [], w)
               else
                 (case extract_images_from_prompt (h_image_env env) (w_images w) session_id
                         (h_event_id env) (JArr blocks) of
                    Inl e \<Rightarrow> Inl e
                  | Inr (text_content, image_refs, files, logged) \<Rightarrow>
                      Inr (JObj (dict_set d ''prompt'' (JStr text_content)), image_refs,
                           foldl (\<lambda>w' ctx. log_error env w' DecodeError ctx)
                             (w\<lparr>w_images := files\<rparr>) logged))
           | _ \<Rightarrow> Inr (data, [], w))
      | _ \<Rightarrow> Inr (data, [], w))"

text \<open>
  Regenerating the Markdown on the key events: any exception is swallowed
  (\<^verbatim>\<open>except Exception: pass\<close>).
\<close>

definition markdown_step :: "host_env \<Rightarrow> world \<Rightarrow> string \<Rightarrow> string \<Rightarrow> world" where
  "markdown_step env w session_id event_type =
     (if event_type \<in> set [''SessionStart'', ''UserPromptSubmit'', ''Stop'', ''SessionEnd'',
                            ''SubagentStop'', ''Notification'']
      then (case w_sessions w session_id of
              None \<Rightarrow> w
            | Some content \<Rightarrow>
                (case h_generate_markdown env content of
                   Inl e \<Rightarrow> w
                 | Inr md \<Rightarrow> w\<lparr>w_markdown := (w_markdown w)(session_id := Some md)\<rparr>))
      else w)"

text \<open>
  The dict \<^verbatim>\<open>event\<close>: the six fields, then \<^verbatim>\<open>images\<close> when references were extracted and
  \<^verbatim>\<open>content\<close> when the summary is truthy.
\<close>

definition build_event ::
  "host_env \<Rightarrow> string \<Rightarrow> json \<Rightarrow> int \<Rightarrow> json \<Rightarrow> json list \<Rightarrow> json option \<Rightarrow> json" where
  "build_event env event_type sid agent_session_num data image_refs content =
     (let event0 = [(''id'', JStr (h_event_id env)), (''type'', JStr event_type),
                    (''ts'', JStr (h_now env)), (''session_id'', sid),
                    (''agent_session_num'', JInt agent_session_num), (''data'', data)];
          event1 = (if image_refs \<noteq> [] then event0 @ [(''images'', JArr image_refs)]
                    else event0)
      in JObj (case content of
                 None \<Rightarrow> event1
               | Some c \<Rightarrow> if truthy c then event1 @ [(''content'', c)] else event1))"

text \<open>
  The branch for a Stop event with a transcript: the Stop event and the response read
  from the transcript are written in one call, then the images of the transcript are
  correlated with the log. \<^verbatim>\<open>update_session_with_images\<close> catches its own exceptions
  and hands them to \<^verbatim>\<open>log_error\<close>.
\<close>

definition write_stop ::
  "host_env \<Rightarrow> world \<Rightarrow> string \<Rightarrow> json \<Rightarrow> int \<Rightarrow> json \<Rightarrow> json \<Rightarrow> error + world" where
  "write_stop env w session_id sid agent_session_num event transcript_path =
     (let response = hook_get_response env transcript_path;
          assistant_event =
            JObj [(''id'', JStr (h_response_id env)), (''type'', JStr ''AssistantResponse''),
                  (''ts'', JStr (h_now env)), (''session_id'', sid),
                  (''agent_session_num'', JInt agent_session_num),
                  (''data'', JObj [(''response'', response)]),
                  (''content'', response)];
          events_to_write = (if truthy response then [event, assistant_event] else [event])
      in case append_events env w session_id events_to_write of
           Inl e \<Rightarrow> Inl e
         | Inr w2 \<Rightarrow>
             let refs = h_transcript_images env transcript_path in
             if refs = [] then Inr w2
             else (case update_session_with_images (h_loads env) (w_sessions w2 session_id) refs of
                     (file, None) \<Rightarrow> Inr (w2\<lparr>w_sessions := (w_sessions w2)(session_id := file)\<rparr>)
                   | (file, Some e) \<Rightarrow> Inr (log_error env w2 e ''UpdateSessionImages'')))"

text \<open>The writing step: the Stop branch, or a plain append.\<close>

definition write_step ::
  "host_env \<Rightarrow> world \<Rightarrow> string \<Rightarrow> string \<Rightarrow> json \<Rightarrow> int \<Rightarrow> json \<Rightarrow> json \<Rightarrow> error + world" where
  "write_step env w session_id event_type sid agent_session_num data event =
     (let transcript_path = (case data of JObj d \<Rightarrow> dict_get d ''transcript_path'' | _ \<Rightarrow> None) in
      case transcript_path of
        None \<Rightarrow> append_events env w session_id [event]
      | Some p \<Rightarrow>
          if event_type = ''Stop'' \<and> is_dict data \<and> truthy p
          then write_stop env w session_id sid agent_session_num event p
          else append_events env w session_id [event])"

text \<open>
  \<^verbatim>\<open>process_event\<close>: the event returned or the exception raised, and the world
  afterwards.
\<close>

definition process_event :: "host_env \<Rightarrow> world \<Rightarrow> string \<Rightarrow> json \<Rightarrow> (error + json) \<times> world" where
  "process_event env w event_type stdin_data =
     (case read_cwd stdin_data of
        Inl e \<Rightarrow> (Inl e, w)
      | Inr cwd \<Rightarrow>
     (case py_get_or stdin_data ''session_id'' (JStr ''unknown'') of
        Inl e \<Rightarrow> (Inl e, w)
      | Inr sid \<Rightarrow>
     (case py_get_or stdin_data ''data'' stdin_data of
        Inl e \<Rightarrow> (Inl e, w)
      | Inr data0 \<Rightarrow>
          let session_id = (case sid of JStr s \<Rightarrow> s | other \<Rightarrow> py_str (h_image_env env) other);
              source = (case data0 of JObj d \<Rightarrow> dict_get d ''source'' | _ \<Rightarrow> None);
              agent_session_num =
                get_agent_session_num (h_read_fails env) (w_sessions w session_id) source
          in
          (case prompt_images env w session_id event_type data0 of
             Inl e \<Rightarrow> (Inl e, w)
           | Inr (data, image_refs, w1) \<Rightarrow>
               (case h_extract_content env event_type data of
                  Inl e \<Rightarrow> (Inl e, w1)
                | Inr content \<Rightarrow>
                    let event = build_event env event_type sid agent_session_num data image_refs
                                  content
                    in (case write_step env w1 session_id event_type sid agent_session_num data
                                 event of
                          Inl e \<Rightarrow> (Inl e, w1)
                        | Inr w3 \<Rightarrow> (Inr event, markdown_step env w3 session_id event_type)))))))"

subsection \<open>\<^verbatim>\<open>main\<close>\<close>

text \<open>
  \<^verbatim>\<open>main\<close>, after the command line was parsed: the world afterwards and the exit code of
  the process. \<^verbatim>\<open>json.load(sys.stdin)\<close> and \<^verbatim>\<open>process_event\<close> run inside
  \<^verbatim>\<open>try ... except Exception\<close>; the handler calls \<^verbatim>\<open>log_error\<close> and \<^verbatim>\<open>sys.exit(0)\<close>. The
  hook has no statement that writes to an output stream.
\<close>

definition main :: "host_env \<Rightarrow> world \<Rightarrow> string \<Rightarrow> string \<Rightarrow> world \<times> int" where
  "main env w args_event stdin =
     (case h_loads env stdin of
        None \<Rightarrow> (log_error env w JSONDecodeError args_event, 0)
      | Some stdin_data \<Rightarrow>
          (case process_event env w args_event stdin_data of
             (Inl e, w') \<Rightarrow> (log_error env w' e args_event, 0)
           | (Inr event, w') \<Rightarrow> (w', 0)))"

subsection \<open>Concrete inputs\<close>

text \<open>
  An environment in which every file operation succeeds, an empty world, and two
  envelopes of one session: a tool call whose input has a key \<^verbatim>\<open>source\<close> with the value
  \<^verbatim>\<open>clear\<close>, and a notification.
\<close>

definition hook_env :: host_env where
  \<open>hook_env =
     \<lparr>h_now = ''2025-01-01T00:00:00+00:00'', h_error_time = ''2025-01-01T00:00:01+00:00'',
      h_event_id = ''evt_0123456789ab'', h_response_id = ''evt_ba9876543210'',
      h_loads = json_loads,
      h_transcripts = (\<lambda>p. None),
      h_transcript_images = (\<lambda>p. []),
      h_extract_content =
        (\<lambda>t d. Inr (if t = ''PreToolUse'' then Some (JStr ''mcp__db__query: {'source': 'clear'}'')
                      else if t = ''Notification'' then Some (JStr ''build finished'')
                      else None)),
      h_generate_markdown = (\<lambda>c. Inr ''# Session''),
      h_image_env = example_env,
      h_describe = (\<lambda>e. ''error''),
      h_read_fails = False, h_append_fails = False, h_error_log_writable = True\<rparr>\<close>

definition empty_world :: world where
  "empty_world = \<lparr>w_sessions = (\<lambda>s. None), w_images = [], w_markdown = (\<lambda>s. None),
                   w_error_log = [], w_stdout = [], w_stderr = []\<rparr>"

definition tool_stdin :: json where
  "tool_stdin = JObj [(''session_id'', JStr ''s1''),
                      (''data'', JObj [(''tool_name'', JStr ''mcp__db__query''),
                                       (''tool_input'', JObj [(''source'', JStr ''clear'')])])]"

definition tool_event :: json where
  \<open>tool_event =
     JObj [(''id'', JStr ''evt_0123456789ab''), (''type'', JStr ''PreToolUse''),
           (''ts'', JStr ''2025-01-01T00:00:00+00:00''), (''session_id'', JStr ''s1''),
           (''agent_session_num'', JInt 0),
           (''data'', JObj [(''tool_name'', JStr ''mcp__db__query''),
                            (''tool_input'', JObj [(''source'', JStr ''clear'')])]),
           (''content'', JStr ''mcp__db__query: {'source': 'clear'}'')]\<close>

definition notification_stdin :: json where
  "notification_stdin = JObj [(''session_id'', JStr ''s1''),
                              (''data'', JObj [(''message'', JStr ''build finished'')])]"

definition notification_event :: "int \<Rightarrow> json" where
  "notification_event n =
     JObj [(''id'', JStr ''evt_0123456789ab''), (''type'', JStr ''Notification''),
           (''ts'', JStr ''2025-01-01T00:00:00+00:00''), (''session_id'', JStr ''s1''),
           (''agent_session_num'', JInt n),
           (''data'', JObj [(''message'', JStr ''build finished'')]),
           (''content'', JStr ''build finished'')]"

text \<open>
  A world whose session log holds one event with the marker \<^verbatim>\<open>compact\<close>, and an
  environment in which reading the session log raises and the Markdown cannot be
  generated.
\<close>

definition compact_event :: json where
  "compact_event =
     JObj [(''id'', JStr ''evt_00000000000c''), (''type'', JStr ''SessionStart''),
           (''ts'', JStr ''2025-01-01T00:00:00+00:00''), (''session_id'', JStr ''s1''),
           (''agent_session_num'', JInt 1),
           (''data'', JObj [(''source'', JStr ''compact'')])]"

definition compact_world :: world where
  "compact_world = empty_world\<lparr>w_sessions := (\<lambda>s. if s = ''s1'' then Some (write_events [compact_event])
                                                    else None)\<rparr>"

definition failing_env :: host_env where
  "failing_env = hook_env\<lparr>h_read_fails := True, h_generate_markdown := (\<lambda>c. Inl (KeyError ''ts''))\<rparr>"

section \<open>The log and its index\<close>

text \<open>
  The number of events of a session log, as \<^verbatim>\<open>read_session\<close> yields them, and the number
  of rows the index holds for the session (\<open>index_event_count\<close>).
\<close>

definition log_event_count :: "decoder \<Rightarrow> string option \<Rightarrow> nat" where
  "log_event_count loads file = length (fst (read_session loads file))"

text \<open>
  What the writers put into the log of session \<open>sid\<close>: a dict whose \<^verbatim>\<open>id\<close> is a string
  and whose \<^verbatim>\<open>session_id\<close>, when it is a string, is \<open>sid\<close> (the hook names the file after
  the session id of the envelope, and the repair tool copies the session id of the Stop
  event it completes).
\<close>

definition logged_ok :: "string \<Rightarrow> json \<Rightarrow> bool" where
  "logged_ok sid e \<longleftrightarrow>
     (case e of
        JObj d \<Rightarrow>
          (case dict_get d ''id'' of Some (JStr i) \<Rightarrow> True | _ \<Rightarrow> False)
          \<and> (case dict_get d ''session_id'' of Some (JStr s) \<Rightarrow> s = sid | _ \<Rightarrow> True)
      | _ \<Rightarrow> False)"

text \<open>
  The facts about \<^verbatim>\<open>json.loads\<close> the invariant rests on, for the events \<open>U\<close> that are
  written: a serialised event decodes to the event, with or without the newline that
  ends its line, and a line cut at its front does not decode (a proper suffix of a
  serialised object is not a JSON document).
\<close>

definition codec_ok :: "decoder \<Rightarrow> json set \<Rightarrow> bool" where
  "codec_ok loads U \<longleftrightarrow>
     (\<forall>e\<in>U. loads (dumps e) = Some e \<and> loads (dumps e @ [newline]) = Some e
         \<and> (\<forall>k\<in>{1..<length (dumps e)}. loads (drop k (dumps e) @ [newline]) = None))"

text \<open>
  The states of the log and index pair that the operations reach from the empty
  storage: appending events to a session log, syncing a session (whatever it returns),
  a repair run that rewrites the log, and an image correlation. The events written
  belong to \<open>U\<close>. The clock, the transcripts and the SQL aggregates are arbitrary.
\<close>

inductive reachable ::
  "decoder \<Rightarrow> json set \<Rightarrow> (string \<Rightarrow> string option) \<Rightarrow> (json list \<Rightarrow> json) \<Rightarrow> (json list \<Rightarrow> json)
     \<Rightarrow> StorageManager \<Rightarrow> bool"
  for loads :: decoder and U :: "json set" and fs :: "string \<Rightarrow> string option"
    and sql_min :: "json list \<Rightarrow> json" and sql_max :: "json list \<Rightarrow> json" where
  r_init: "reachable loads U fs sql_min sql_max \<lparr>jsonl = (\<lambda>s. None), sqlite = empty_db\<rparr>"
| r_append:
    "reachable loads U fs sql_min sql_max st \<Longrightarrow>
     \<forall>e\<in>set events. e \<in> U \<and> logged_ok sid e \<Longrightarrow>
     reachable loads U fs sql_min sql_max
       (st\<lparr>jsonl := (jsonl st)(sid := Some (append_text (jsonl st sid) events))\<rparr>)"
| r_sync:
    "reachable loads U fs sql_min sql_max st \<Longrightarrow>
     reachable loads U fs sql_min sql_max (snd (sync_session loads sql_min sql_max now st sid))"
| r_repair:
    "reachable loads U fs sql_min sql_max st \<Longrightarrow>
     repair_run loads fs (jsonl st sid) = Inr (Some (n, rs)) \<Longrightarrow>
     0 < r_repaired rs \<Longrightarrow>
     set (r_events rs) \<subseteq> U \<Longrightarrow>
     reachable loads U fs sql_min sql_max
       (st\<lparr>jsonl := (jsonl st)(sid := Some (write_events (r_events rs)))\<rparr>)"
| r_correlate:
    "reachable loads U fs sql_min sql_max st \<Longrightarrow>
     jsonl st sid = Some content \<Longrightarrow>
     parse_dict_lines loads (split_lines (strip content)) = Inr events \<Longrightarrow>
     set (expected_events refs events) \<subseteq> U \<Longrightarrow>
     reachable loads U fs sql_min sql_max
       (st\<lparr>jsonl := (jsonl st)(sid := fst (update_session_with_images loads (Some content) refs))\<rparr>)"

text \<open>The \<^verbatim>\<open>id\<close> of a logged event.\<close>

definition event_id :: "json \<Rightarrow> json option" where
  "event_id e = (case e of JObj d \<Rightarrow> dict_get d ''id'' | _ \<Rightarrow> None)"

text \<open>
  The invariant of the reachable states. Every session file is the serialisation of a
  list of events of \<open>U\<close> written for that session; the rows of the index have distinct
  ids; and a row filed under a session carries the id of an event of that session's
  log.
\<close>

definition file_events :: "json set \<Rightarrow> string \<Rightarrow> string \<Rightarrow> json list \<Rightarrow> bool" where
  "file_events U sid content evs \<longleftrightarrow>
     content = write_events evs \<and> (\<forall>e\<in>set evs. e \<in> U \<and> logged_ok sid e)"

definition row_ok :: "json set \<Rightarrow> (string \<Rightarrow> string option) \<Rightarrow> Event \<Rightarrow> bool" where
  "row_ok U files r \<longleftrightarrow>
     (\<forall>s. ev_session_id r = JStr s \<longrightarrow>
        (\<exists>c evs. files s = Some c \<and> file_events U s c evs
                  \<and> Some (ev_id r) \<in> event_id ` set evs))"

definition storage_inv :: "json set \<Rightarrow> StorageManager \<Rightarrow> bool" where
  "storage_inv U st \<longleftrightarrow>
     distinct (map ev_id (events_table (sqlite st)))
     \<and> (\<forall>sid c. jsonl st sid = Some c \<longrightarrow> (\<exists>evs. file_events U sid c evs))
     \<and> (\<forall>r\<in>set (events_table (sqlite st)). row_ok U (jsonl st) r)"

section \<open>Properties of dictionaries\<close>

lemma dict_get_set:
  "dict_get (dict_set d k v) k' = (if k' = k then Some v else dict_get d k')"
  by (induction d) auto

lemma dict_get_or_set:
  "dict_get_or (dict_set d k v) k' dflt = (if k' = k then v else dict_get_or d k' dflt)"
  by (simp add: dict_get_or_def dict_get_set)


lemma set_keys_dict_set: "set (dict_keys (dict_set d k v)) = insert k (set (dict_keys d))"
proof (induction d)
  case Nil
  show ?case by (simp add: dict_keys_def)
next
  case (Cons a d)
  then show ?case by (cases a) (simp add: dict_keys_def insert_commute insert_absorb)
qed

section \<open>Reciprocal rank fusion: the fused score\<close>

lemma keyword_loop_scores:
  "dict_get_or (scores (keyword_loop k rank rs st)) e 0
     = dict_get_or (scores st) e 0 + rank_contribution k rank rs e"
  by (induction k rank rs st rule: keyword_loop.induct) (auto simp: Let_def dict_get_or_set)

lemma semantic_loop_scores:
  "dict_get_or (scores (semantic_loop k rank rs st)) e 0
     = dict_get_or (scores st) e 0 + rank_contribution k rank rs e"
  by (induction k rank rs st rule: semantic_loop.induct) (auto simp: Let_def dict_get_or_set)

lemma keyword_loop_keys:
  "set (dict_keys (scores (keyword_loop k rank rs st)))
     = set (dict_keys (scores st)) \<union> sr_event_id ` set rs"
  by (induction k rank rs st rule: keyword_loop.induct) (auto simp: Let_def set_keys_dict_set)

lemma semantic_loop_keys:
  "set (dict_keys (scores (semantic_loop k rank rs st)))
     = set (dict_keys (scores st)) \<union> sr_event_id ` set rs"
  by (induction k rank rs st rule: semantic_loop.induct) (auto simp: Let_def set_keys_dict_set)

lemma keyword_loop_map_ok: "map_ok st \<Longrightarrow> map_ok (keyword_loop k rank rs st)"
proof (induction k rank rs st rule: keyword_loop.induct)
  case (1 k rank st)
  then show ?case by simp
next
  case (2 k rank result rest st)
  show ?case
    unfolding keyword_loop.simps Let_def
    apply (rule "2.IH"[unfolded Let_def, OF refl])
    using "2.prems" by (auto simp: map_ok_def set_keys_dict_set dict_get_set)
qed

lemma semantic_loop_map_ok: "map_ok st \<Longrightarrow> map_ok (semantic_loop k rank rs st)"
proof (induction k rank rs st rule: semantic_loop.induct)
  case (1 k rank st)
  then show ?case by simp
next
  case (2 k rank result rest st)
  show ?case
    unfolding semantic_loop.simps Let_def
    apply (rule "2.IH"[unfolded Let_def, OF refl])
    using "2.prems" by (auto simp: map_ok_def set_keys_dict_set dict_get_set dict_has_def)
qed

lemma find_map_filter:
  assumes "\<And>x. x \<in> set xs \<Longrightarrow> \<exists>r. f x = Some r \<and> g r = x"
  shows "find (\<lambda>r. g r = e) (List.map_filter f xs) = (if e \<in> set xs then f e else None)"
  using assms
proof (induction xs)
  case Nil
  then show ?case by (simp add: List.map_filter_simps)
next
  case (Cons x xs)
  then obtain r where r: "f x = Some r" "g r = x" by auto
  from Cons have IH:
    "find (\<lambda>r. g r = e) (List.map_filter f xs) = (if e \<in> set xs then f e else None)"
    by auto
  show ?case using r IH by (auto simp: List.map_filter_simps)
qed

text \<open>
  For any two lists, the fused score of an event is the sum of the contributions of
  every position it occupies in either list.
\<close>

lemma rrf_score_of:
  "score_of (reciprocal_rank_fusion kw sem k) e =
     (if e \<in> sr_event_id ` set kw \<union> sr_event_id ` set sem
      then Some (rank_contribution k 0 kw e + rank_contribution k 0 sem e) else None)"
proof -
  define st0 where
    "st0 = \<lparr>scores = [], result_map = [], cosine_scores = ([]::(string, real) dict)\<rparr>"
  define st2 where "st2 = semantic_loop k 0 sem (keyword_loop k 0 kw st0)"
  define ids where
    "ids = sort_key (\<lambda>x. - dict_get_or (scores st2) x 0) (dict_keys (scores st2))"
  have ok: "map_ok st2" unfolding st2_def
    by (intro semantic_loop_map_ok keyword_loop_map_ok) (simp add: map_ok_def st0_def dict_keys_def)
  have keys: "set (dict_keys (scores st2)) = sr_event_id ` set kw \<union> sr_event_id ` set sem"
    unfolding st2_def
    by (simp add: semantic_loop_keys keyword_loop_keys) (simp add: st0_def dict_keys_def)
  have sc: "dict_get_or (scores st2) e 0
              = rank_contribution k 0 kw e + rank_contribution k 0 sem e"
    unfolding st2_def
    by (simp add: semantic_loop_scores keyword_loop_scores) (simp add: st0_def dict_get_or_def)
  have br: "\<And>x. x \<in> set ids \<Longrightarrow> \<exists>r. build_result st2 x = Some r \<and> sr_event_id r = x"
    using ok by (fastforce simp: map_ok_def build_result_def ids_def)
  have "find (\<lambda>r. sr_event_id r = e) (List.map_filter (build_result st2) ids)
          = (if e \<in> set ids then build_result st2 e else None)"
    using find_map_filter[where f = "build_result st2" and g = sr_event_id and e = e and xs = ids] br
    by simp
  moreover have "e \<in> set (dict_keys (scores st2)) \<Longrightarrow>
      map_option sr_score (build_result st2 e) = Some (dict_get_or (scores st2) e 0)"
    using ok by (fastforce simp: map_ok_def build_result_def)
  ultimately show ?thesis
    unfolding score_of_def reciprocal_rank_fusion_def Let_def
      st0_def[symmetric] st2_def[symmetric] ids_def[symmetric]
    using keys sc by (auto simp: ids_def)
qed

lemma rank_contribution_absent:
  "e \<notin> sr_event_id ` set rs \<Longrightarrow> rank_contribution k rank rs e = 0"
  by (induction rs arbitrary: rank) auto

lemma rank_contribution_distinct:
  "distinct (map sr_event_id rs) \<Longrightarrow> i < length rs \<Longrightarrow> sr_event_id (rs ! i) = e \<Longrightarrow>
   rank_contribution k rank rs e = 1 / real (k + (rank + i) + 1)"
proof (induction rs arbitrary: rank i)
  case Nil
  then show ?case by simp
next
  case (Cons r rs)
  show ?case
  proof (cases i)
    case 0
    with Cons.prems show ?thesis by (simp add: rank_contribution_absent)
  next
    case (Suc j)
    with Cons.prems have "sr_event_id r \<noteq> e" by auto
    with Cons.IH[of j "Suc rank"] Cons.prems Suc show ?thesis by simp
  qed
qed

text \<open>
  C1 (as amended). When no event id occurs twice within the keyword list and none occurs
  twice within the semantic list, the fused score of an event at 0-based keyword rank
  \<open>rk\<close> and 0-based semantic rank \<open>rs\<close> is exactly \<open>1/(60+rk+1) + 1/(60+rs+1)\<close>; an
  event present in only one of the two lists gets only that list's term.
\<close>

theorem rrf_score_distinct_ids:
  assumes "distinct (map sr_event_id kw)" and "distinct (map sr_event_id sem)"
  shows "(rk < length kw \<and> sr_event_id (kw ! rk) = e \<and> rs < length sem \<and> sr_event_id (sem ! rs) = e
            \<longrightarrow> score_of (reciprocal_rank_fusion kw sem 60) e
                  = Some (1 / (60 + real rk + 1) + 1 / (60 + real rs + 1)))
       \<and> (rk < length kw \<and> sr_event_id (kw ! rk) = e \<and> e \<notin> sr_event_id ` set sem
            \<longrightarrow> score_of (reciprocal_rank_fusion kw sem 60) e = Some (1 / (60 + real rk + 1)))
       \<and> (rs < length sem \<and> sr_event_id (sem ! rs) = e \<and> e \<notin> sr_event_id ` set kw
            \<longrightarrow> score_of (reciprocal_rank_fusion kw sem 60) e = Some (1 / (60 + real rs + 1)))"
  using assms
  by (auto simp: rrf_score_of rank_contribution_absent
        rank_contribution_distinct[where rank = 0, simplified] add.commute add.left_commute)

theorem rrf_score_distinct_ids_witness:
  "distinct (map sr_event_id [result_for ''a'', result_for ''b''])
   \<and> distinct (map sr_event_id [result_for ''b'', result_for ''c''])
   \<and> score_of (reciprocal_rank_fusion [result_for ''a'', result_for ''b'']
                 [result_for ''b'', result_for ''c''] 60) ''b'' = Some (1 / 62 + 1 / 61)
   \<and> score_of (reciprocal_rank_fusion [result_for ''a'', result_for ''b'']
                 [result_for ''b'', result_for ''c''] 60) ''a'' = Some (1 / 61)
   \<and> score_of (reciprocal_rank_fusion [result_for ''a'', result_for ''b'']
                 [result_for ''b'', result_for ''c''] 60) ''c'' = Some (1 / 62)"
proof -
  let ?kw = "[result_for ''a'', result_for ''b'']"
  let ?sem = "[result_for ''b'', result_for ''c'']"
  have d1: "distinct (map sr_event_id ?kw)" by (simp add: result_for_def)
  have d2: "distinct (map sr_event_id ?sem)" by (simp add: result_for_def)
  show ?thesis
    using rrf_score_distinct_ids[OF d1 d2, of 1 "''b''" 0]
      rrf_score_distinct_ids[OF d1 d2, of 0 "''a''" 0]
      rrf_score_distinct_ids[OF d1 d2, of 0 "''c''" 1]
    by (simp add: result_for_def)
qed

text \<open>
  The claim as stated, for any two lists, fails when an event id occurs twice in one
  list: the event at keyword rank 0 below is in the keyword list only, and its fused
  score is \<open>1/61 + 1/62\<close>, not \<open>1/61\<close>.
\<close>

theorem rrf_score_counterexample:
  "sr_event_id ([result_for ''a'', result_for ''a''] ! 0) = ''a''
   \<and> ''a'' \<notin> sr_event_id ` set ([] :: SearchResult list)
   \<and> score_of (reciprocal_rank_fusion [result_for ''a'', result_for ''a''] [] 60) ''a''
       = Some (1 / 61 + 1 / 62)
   \<and> score_of (reciprocal_rank_fusion [result_for ''a'', result_for ''a''] [] 60) ''a''
       \<noteq> Some (1 / (60 + 0 + 1))"
  by (simp add: reciprocal_rank_fusion_def score_of_def result_for_def dict_get_or_def
        dict_keys_def dict_has_def build_result_def List.map_filter_simps Let_def)

section \<open>Embedding search: the range of the similarity\<close>










section \<open>Lines of a text file\<close>







section \<open>Reading a log that ends in a fragment\<close>






section \<open>Sync is idempotent without appends\<close>




section \<open>Image correlation changes only matched prompts\<close>





lemma upi_distinct: "distinct (user_prompt_indices xs)"
  by (simp add: user_prompt_indices_def)















section \<open>Repair run twice\<close>

text \<open>
  C5. The claim is that a second repair run repairs nothing and leaves the log as it is.
  On the log below the code does otherwise. The first run finds two Stop events without
  a response; working backwards it inserts the response after the later one and skips
  the earlier one, whose response is the same text (the duplicate guard). The guard
  \<^verbatim>\<open>last_response\<close> starts empty in every run, so the second run finds the earlier Stop
  event still without a response and inserts the text it skipped before: it repairs one
  event and rewrites the log.
\<close>

theorem repair_twice_repairs_again:
  "repair_session json_loads transcript_fs (Some gap_log) False
     = Inr (\<lparr>res_missing = 2, res_repaired = 1, res_failed = 0, res_skipped = 1\<rparr>,
            Some (write_events [prompt_with_id ''evt_a'', stop_with_transcript ''evt_b'',
                                prompt_with_id ''evt_c'', stop_with_transcript ''evt_d'',
                                repaired_event ''evt_repair_0003'']))
   \<and> repair_session json_loads transcript_fs
         (Some (write_events [prompt_with_id ''evt_a'', stop_with_transcript ''evt_b'',
                              prompt_with_id ''evt_c'', stop_with_transcript ''evt_d'',
                              repaired_event ''evt_repair_0003''])) False
     = Inr (\<lparr>res_missing = 1, res_repaired = 1, res_failed = 0, res_skipped = 0\<rparr>,
            Some (write_events [prompt_with_id ''evt_a'', stop_with_transcript ''evt_b'',
                                repaired_event ''evt_repair_0001'',
                                prompt_with_id ''evt_c'', stop_with_transcript ''evt_d'',
                                repaired_event ''evt_repair_0003'']))"
  by code_simp

section \<open>Identical image bytes in two blocks\<close>


















section \<open>The hook never fails its host\<close>

lemma log_error_streams [simp]:
  "w_stdout (log_error env w e c) = w_stdout w" "w_stderr (log_error env w e c) = w_stderr w"
  by (simp_all add: log_error_def)

lemma fold_log_error_streams [simp]:
  "w_stdout (foldl (\<lambda>w' ctx. log_error env w' e ctx) w cs) = w_stdout w"
  "w_stderr (foldl (\<lambda>w' ctx. log_error env w' e ctx) w cs) = w_stderr w"
  by (induction cs arbitrary: w) simp_all

lemma append_events_streams:
  "append_events env w sid evs = Inr w' \<Longrightarrow> w_stdout w' = w_stdout w \<and> w_stderr w' = w_stderr w"
  by (auto simp: append_events_def split: if_splits)

lemma markdown_step_streams [simp]:
  "w_stdout (markdown_step env w sid t) = w_stdout w" "w_stderr (markdown_step env w sid t) = w_stderr w"
  by (auto simp: markdown_step_def split: option.splits sum.splits)

lemma prompt_images_streams:
  "prompt_images env w sid t d = Inr (d', refs, w') \<Longrightarrow> w_stdout w' = w_stdout w \<and> w_stderr w' = w_stderr w"
  by (auto simp: prompt_images_def split: json.splits option.splits if_splits sum.splits prod.splits)

lemma write_stop_streams:
  "write_stop env w sid s n ev p = Inr w' \<Longrightarrow> w_stdout w' = w_stdout w \<and> w_stderr w' = w_stderr w"
  by (auto simp: write_stop_def Let_def split: sum.splits prod.splits option.splits if_splits
           dest!: append_events_streams)

lemma write_step_streams:
  "write_step env w sid t s n d ev = Inr w' \<Longrightarrow> w_stdout w' = w_stdout w \<and> w_stderr w' = w_stderr w"
  by (auto simp: write_step_def Let_def split: option.splits if_splits
           dest!: append_events_streams write_stop_streams)

lemma process_event_streams:
  "process_event env w t d = (r, w') \<Longrightarrow> w_stdout w' = w_stdout w \<and> w_stderr w' = w_stderr w"
  unfolding process_event_def Let_def
  by (auto split: sum.splits prod.splits
           dest!: prompt_images_streams write_step_streams)

text \<open>
  C9 (as amended). For every ingestion invocation the exit code of the process is
  success and nothing is written to stdout or stderr. A standard input that does not
  decode, and any exception that leaves \<^verbatim>\<open>process_event\<close>, is caught in \<^verbatim>\<open>main\<close> and, when
  the side error log can be written, recorded there as one appended line that carries
  the time and the event type.
\<close>

theorem main_absorbs_failures:
  "snd (main env w args_event stdin) = 0
   \<and> w_stdout (fst (main env w args_event stdin)) = w_stdout w
   \<and> w_stderr (fst (main env w args_event stdin)) = w_stderr w
   \<and> (h_error_log_writable env \<longrightarrow>
        (h_loads env stdin = None \<longrightarrow>
           w_error_log (fst (main env w args_event stdin))
             = w_error_log w @ error_line env JSONDecodeError args_event)
        \<and> (\<forall>stdin_data e w'.
             h_loads env stdin = Some stdin_data
             \<and> process_event env w args_event stdin_data = (Inl e, w') \<longrightarrow>
             w_error_log (fst (main env w args_event stdin))
               = w_error_log w' @ error_line env e args_event))"
  by (auto simp: main_def log_error_def split: option.splits sum.splits prod.splits
           dest: process_event_streams)

lemma hook_env_facts:
  "h_error_log_writable hook_env" "h_loads hook_env = json_loads"
  by (simp_all add: hook_env_def)

lemma bad_stdin_facts:
  "json_loads ''[1]'' = Some (JArr [JInt 1])"
  "fst (process_event hook_env empty_world ''Notification'' (JArr [JInt 1])) = Inl AttributeError"
  "w_error_log (snd (process_event hook_env empty_world ''Notification'' (JArr [JInt 1]))) = []"
  by code_simp+

theorem main_absorbs_failures_witness:
  "snd (main hook_env empty_world ''Notification'' ''[1]'') = 0
   \<and> w_stdout (fst (main hook_env empty_world ''Notification'' ''[1]'')) = w_stdout empty_world
   \<and> w_stderr (fst (main hook_env empty_world ''Notification'' ''[1]'')) = w_stderr empty_world
   \<and> w_error_log (fst (main hook_env empty_world ''Notification'' ''[1]''))
       = error_line hook_env AttributeError ''Notification''"
proof -
  let ?p = "process_event hook_env empty_world ''Notification'' (JArr [JInt 1])"
  have p: "?p = (Inl AttributeError, snd ?p)"
    using bad_stdin_facts(2) by (metis prod.collapse)
  from main_absorbs_failures[of hook_env empty_world "''Notification''" "''[1]''"]
  have a: "snd (main hook_env empty_world ''Notification'' ''[1]'') = 0"
    and b: "w_stdout (fst (main hook_env empty_world ''Notification'' ''[1]'')) = w_stdout empty_world"
    and c: "w_stderr (fst (main hook_env empty_world ''Notification'' ''[1]'')) = w_stderr empty_world"
    and d: "\<And>stdin_data e w'. h_loads hook_env ''[1]'' = Some stdin_data \<Longrightarrow>
              process_event hook_env empty_world ''Notification'' stdin_data = (Inl e, w') \<Longrightarrow>
              w_error_log (fst (main hook_env empty_world ''Notification'' ''[1]''))
                = w_error_log w' @ error_line hook_env e ''Notification''"
    using hook_env_facts(1) by blast+
  have "h_loads hook_env ''[1]'' = Some (JArr [JInt 1])"
    using hook_env_facts(2) bad_stdin_facts(1) by simp
  from d[OF this p] bad_stdin_facts(3) a b c show ?thesis by simp
qed

text \<open>
  The claim as stated fails where it says that any failure is recorded. In the run below
  reading the session log raises inside \<^verbatim>\<open>get_agent_session_num\<close> and
  \<^verbatim>\<open>generate_markdown\<close> raises: both exceptions are swallowed where they occur, the event
  is appended with the number 0 although the log holds a \<^verbatim>\<open>compact\<close> event, no Markdown
  is written, and the error log stays empty.
\<close>

theorem swallowed_failures_counterexample:
  "h_read_fails failing_env
   \<and> h_generate_markdown failing_env (write_events [compact_event, notification_event 0])
       = Inl (KeyError ''ts'')
   \<and> h_error_log_writable failing_env
   \<and> snd (main failing_env compact_world ''Notification'' (dumps notification_stdin)) = 0
   \<and> w_sessions (fst (main failing_env compact_world ''Notification'' (dumps notification_stdin)))
        ''s1'' = Some (write_events [compact_event, notification_event 0])
   \<and> w_markdown (fst (main failing_env compact_world ''Notification'' (dumps notification_stdin)))
        ''s1'' = None
   \<and> w_error_log (fst (main failing_env compact_world ''Notification'' (dumps notification_stdin)))
       = []"
  by code_simp

section \<open>The agent session number\<close>

text \<open>
  C2. The claim is that the number given to an appended event is the number of events
  logged before it whose source marker is \<^verbatim>\<open>compact\<close> or \<^verbatim>\<open>clear\<close>, plus one if the event
  itself carries such a marker. The code counts the occurrences of the texts
  \<^verbatim>\<open>"source": "compact"\<close> and \<^verbatim>\<open>"source": "clear"\<close> in the log file instead, and these also
  occur inside payloads. Below, the first event logged is a tool call whose input has the
  key \<^verbatim>\<open>source\<close> with the value \<^verbatim>\<open>clear\<close>; it carries no source marker, and neither does
  the notification logged next, yet the notification gets the number 1 where the claim
  gives 0.
\<close>

theorem agent_session_num_counts_text:
  "fst (process_event hook_env empty_world ''PreToolUse'' tool_stdin) = Inr tool_event
   \<and> w_sessions (snd (process_event hook_env empty_world ''PreToolUse'' tool_stdin)) ''s1''
       = Some (write_events [tool_event])
   \<and> event_marker tool_event = None
   \<and> event_marker notification_stdin = None
   \<and> spec_agent_session_num [tool_event] None = 0
   \<and> get_agent_session_num False (Some (write_events [tool_event])) None = 1
   \<and> fst (process_event hook_env
              (snd (process_event hook_env empty_world ''PreToolUse'' tool_stdin))
              ''Notification'' notification_stdin) = Inr (notification_event 1)"
  by code_simp

end
